theory Spec2Isabelle
  imports Complex_Main "HOL-Library.Sublist"
begin

section \<open>Python values used by server.py\<close>

text \<open>
  A Python \<open>str\<close> is a sequence of Unicode code points, so it is modelled as a list of
  code points (natural numbers); \<open>len\<close> and slicing then count code points, as Python
  does.  The message literals of \<^verbatim>\<open>server.py\<close> are Japanese; they are written here
  by their code points, the ASCII stretches through \<open>ascii\<close>.  \<open>bytes\<close> is a list of
  octets.
\<close>

type_synonym pystr = "nat list"
type_synonym bytes = "nat list"

definition ascii :: "string \<Rightarrow> pystr" where
  "ascii s = map of_char s"

text \<open>
  A Python \<open>float\<close>: the finite doubles are (some of the) reals; the two infinities and
  NaN are values of their own.  Comparison is IEEE 754's: every comparison with NaN is
  false.  The handlers only compare floats with the literals \<open>0.5\<close>, \<open>2.0\<close>,
  \<open>0.0\<close>, \<open>-0.15\<close> and \<open>0.15\<close>.  The double nearest to \<open>0.15\<close> lies just below
  it and no double lies between the two, so for a double \<open>x\<close> the test
  \<open>x <= 0.15\<close> of the code agrees with the comparison of reals used here (likewise
  \<open>-0.15 <= x\<close>); the other literals are doubles exactly.
\<close>

datatype pyfloat = Finite real | PosInf | NegInf | NaN

fun float_le :: "pyfloat \<Rightarrow> pyfloat \<Rightarrow> bool" where
  "float_le (Finite a) (Finite b) = (a \<le> b)"
| "float_le (Finite a) PosInf = True"
| "float_le (Finite a) NegInf = False"
| "float_le PosInf PosInf = True"
| "float_le PosInf (Finite b) = False"
| "float_le PosInf NegInf = False"
| "float_le NegInf (Finite b) = True"
| "float_le NegInf PosInf = True"
| "float_le NegInf NegInf = True"
| "float_le NaN y = False"
| "float_le x NaN = False"

text \<open>The values \<open>response.json()\<close> can produce.  A \<open>dict\<close> keeps its insertion order.\<close>

datatype json =
    JNull
  | JBool bool
  | JInt int
  | JFloat pyfloat
  | JStr pystr
  | JArr "json list"
  | JObj "(pystr \<times> json) list"

text \<open>
  Exceptions, by the classes the handlers of \<^verbatim>\<open>server.py\<close> tell apart; each carries
  \<open>str(e)\<close>.  \<open>OtherException n m\<close> is an instance of any other subclass of
  \<open>Exception\<close>, with \<open>type(e).__name__ = n\<close> and \<open>str(e) = m\<close>.  Exceptions that are
  not instances of \<open>Exception\<close> (\<open>KeyboardInterrupt\<close>, \<open>SystemExit\<close>, a task
  cancellation) are outside the model.
\<close>

datatype exn =
    ConnectError pystr
  | HTTPStatusError int pystr
  | PermissionError pystr
  | FileNotFoundError pystr
  | CalledProcessError int pystr
  | OtherException pystr pystr

fun exn_type_name :: "exn \<Rightarrow> pystr" where
  "exn_type_name (ConnectError m) = ascii ''ConnectError''"
| "exn_type_name (HTTPStatusError c m) = ascii ''HTTPStatusError''"
| "exn_type_name (PermissionError m) = ascii ''PermissionError''"
| "exn_type_name (FileNotFoundError m) = ascii ''FileNotFoundError''"
| "exn_type_name (CalledProcessError c m) = ascii ''CalledProcessError''"
| "exn_type_name (OtherException n m) = n"

fun exn_str :: "exn \<Rightarrow> pystr" where
  "exn_str (ConnectError m) = m"
| "exn_str (HTTPStatusError c m) = m"
| "exn_str (PermissionError m) = m"
| "exn_str (FileNotFoundError m) = m"
| "exn_str (CalledProcessError c m) = m"
| "exn_str (OtherException n m) = m"

text \<open>\<open>str(n)\<close> of a Python \<open>int\<close>: decimal digits, a minus sign when negative.\<close>

function str_nat :: "nat \<Rightarrow> pystr" where
  "str_nat n = (if n < 10 then [48 + n] else str_nat (n div 10) @ [48 + n mod 10])"
  by pat_completeness auto
termination
  by (relation "measure id") auto

definition str_int :: "int \<Rightarrow> pystr" where
  "str_int i = (if i < 0 then 45 # str_nat (nat (- i)) else str_nat (nat i))"

text \<open>The name of a JSON value's Python type, as error messages print it.\<close>

fun py_type_name :: "json \<Rightarrow> string" where
  "py_type_name JNull = ''NoneType''"
| "py_type_name (JBool b) = ''bool''"
| "py_type_name (JInt i) = ''int''"
| "py_type_name (JFloat f) = ''float''"
| "py_type_name (JStr s) = ''str''"
| "py_type_name (JArr xs) = ''list''"
| "py_type_name (JObj kvs) = ''dict''"

definition type_error :: "pystr \<Rightarrow> exn" where
  "type_error m = OtherException (ascii ''TypeError'') m"

text \<open>\<open>repr\<close> of a key made of plain ASCII letters, as \<open>KeyError\<close> prints it.\<close>

definition quoted :: "pystr \<Rightarrow> pystr" where
  "quoted s = ascii [CHR 0x27] @ s @ ascii [CHR 0x27]"

text \<open>\<open>d[k]\<close> for a string key \<open>k\<close> (messages as CPython 3.11 words them).\<close>

fun py_getitem :: "json \<Rightarrow> pystr \<Rightarrow> exn + json" where
  "py_getitem (JObj kvs) k =
     (case map_of kvs k of
        Some v \<Rightarrow> Inr v
      | None \<Rightarrow> Inl (OtherException (ascii ''KeyError'') (quoted k)))"
| "py_getitem (JArr xs) k =
     Inl (type_error (ascii ''list indices must be integers or slices, not str''))"
| "py_getitem (JStr s) k =
     Inl (type_error (ascii ''string indices must be integers, not '' @ quoted (ascii ''str'')))"
| "py_getitem v k =
     Inl (type_error (quoted (ascii (py_type_name v)) @ ascii '' object is not subscriptable''))"

text \<open>\<open>d.get(k, default)\<close>: only a \<open>dict\<close> has the method.\<close>

fun py_get :: "json \<Rightarrow> pystr \<Rightarrow> json \<Rightarrow> exn + json" where
  "py_get (JObj kvs) k d = (case map_of kvs k of Some v \<Rightarrow> Inr v | None \<Rightarrow> Inr d)"
| "py_get v k d =
     Inl (OtherException (ascii ''AttributeError'')
       (quoted (ascii (py_type_name v)) @ ascii '' object has no attribute ''
          @ quoted (ascii ''get'')))"

text \<open>What a \<open>for\<close> loop iterates over: the items of a list, the keys of a dict, the
  characters of a string; anything else is not iterable.\<close>

fun py_iter :: "json \<Rightarrow> exn + json list" where
  "py_iter (JArr xs) = Inr xs"
| "py_iter (JObj kvs) = Inr (map (\<lambda>kv. JStr (fst kv)) kvs)"
| "py_iter (JStr s) = Inr (map (\<lambda>c. JStr [c]) s)"
| "py_iter v =
     Inl (type_error (quoted (ascii (py_type_name v)) @ ascii '' object is not iterable''))"

text \<open>\<open>d[k] = v\<close>: an existing key keeps its place, a new key goes last.\<close>

fun dict_set :: "pystr \<Rightarrow> json \<Rightarrow> (pystr \<times> json) list \<Rightarrow> (pystr \<times> json) list" where
  "dict_set k v [] = [(k, v)]"
| "dict_set k v (kv # kvs) = (if fst kv = k then (k, v) # kvs else kv # dict_set k v kvs)"

fun py_setitem :: "json \<Rightarrow> pystr \<Rightarrow> json \<Rightarrow> exn + json" where
  "py_setitem (JObj kvs) k v = Inr (JObj (dict_set k v kvs))"
| "py_setitem (JArr xs) k v =
     Inl (type_error (ascii ''list indices must be integers or slices, not str''))"
| "py_setitem d k v =
     Inl (type_error (quoted (ascii (py_type_name d))
            @ ascii '' object does not support item assignment''))"

text \<open>
  How an f-string prints a value: a \<open>str\<close> as it is, an \<open>int\<close> in decimal, \<open>True\<close>,
  \<open>False\<close> and \<open>None\<close> by name.  The \<open>repr\<close> of floats, lists and dicts is Python's
  own and is taken as the parameter \<open>other\<close>.
\<close>

fun py_format :: "(json \<Rightarrow> pystr) \<Rightarrow> json \<Rightarrow> pystr" where
  "py_format other (JStr s) = s"
| "py_format other (JInt i) = str_int i"
| "py_format other (JBool b) = ascii (if b then ''True'' else ''False'')"
| "py_format other JNull = ascii ''None''"
| "py_format other v = other v"

text \<open>\<open>sep.join(xs)\<close>.\<close>

fun join :: "pystr \<Rightarrow> pystr list \<Rightarrow> pystr" where
  "join sep [] = []"
| "join sep [x] = x"
| "join sep (x # y # ys) = x @ sep @ join sep (y # ys)"

section \<open>pathlib on POSIX\<close>

text \<open>
  \<open>Path(s)\<close> as \<^verbatim>\<open>pathlib\<close> of CPython 3.11 parses it with the POSIX flavour: a
  root (\<open>''\<close>, \<open>'/'\<close> or \<open>'//'\<close>) and the components after it, with empty
  components and \<open>'.'\<close> dropped.  \<open>path_parts\<close> holds the components after the root.
\<close>

record path =
  path_root :: pystr
  path_parts :: "pystr list"

definition SEP :: nat where "SEP = 47"
definition DOT :: nat where "DOT = 46"

text \<open>\<open>s.split(sep)\<close> for a one-character separator.\<close>

fun split_on :: "nat \<Rightarrow> pystr \<Rightarrow> pystr list" where
  "split_on sep [] = [[]]"
| "split_on sep (c # cs) =
     (if c = sep then [] # split_on sep cs
      else (case split_on sep cs of x # xs \<Rightarrow> (c # x) # xs | [] \<Rightarrow> [[c]]))"

definition splitroot :: "pystr \<Rightarrow> pystr \<times> pystr" where
  "splitroot part =
     (if part \<noteq> [] \<and> hd part = SEP then
        (let stripped_part = dropWhile (\<lambda>c. c = SEP) part in
         if length part - length stripped_part = 2 then ([SEP, SEP], stripped_part)
         else ([SEP], stripped_part))
      else ([], part))"

definition Path :: "pystr \<Rightarrow> path" where
  "Path s =
     (case splitroot s of
        (rt, rel) \<Rightarrow>
          \<lparr>path_root = rt,
           path_parts = filter (\<lambda>x. x \<noteq> [] \<and> x \<noteq> [DOT]) (split_on SEP rel)\<rparr>)"

text \<open>\<open>str(p)\<close>.\<close>

definition path_str :: "path \<Rightarrow> pystr" where
  "path_str p =
     (let s = path_root p @ join [SEP] (path_parts p) in if s = [] then [DOT] else s)"

text \<open>\<open>p.name\<close>: the final component, if any.\<close>

definition path_name :: "path \<Rightarrow> pystr" where
  "path_name p = (if path_parts p = [] then [] else last (path_parts p))"

text \<open>\<open>s.rfind(c)\<close>: the last index of \<open>c\<close>, or \<open>-1\<close>.\<close>

primrec rfind :: "nat \<Rightarrow> pystr \<Rightarrow> int" where
  "rfind c [] = - 1"
| "rfind c (x # xs) =
     (let r = rfind c xs in if 0 \<le> r then r + 1 else if x = c then 0 else - 1)"

text \<open>\<open>p.suffix\<close>: the final component's last suffix, with its dot, if any.\<close>

definition path_suffix :: "path \<Rightarrow> pystr" where
  "path_suffix p =
     (let nm = path_name p; i = rfind DOT nm in
      if 0 < i \<and> i < int (length nm) - 1 then drop (nat i) nm else [])"

text \<open>\<open>repr(p)\<close> of a path whose name is empty: its string is \<open>.\<close>, \<open>/\<close> or \<open>//\<close>.\<close>

definition path_repr :: "path \<Rightarrow> pystr" where
  "path_repr p = ascii ''PosixPath('' @ quoted (path_str p) @ ascii '')''"

definition value_error :: "pystr \<Rightarrow> exn" where
  "value_error m = OtherException (ascii ''ValueError'') m"

text \<open>\<open>p.with_suffix(suffix)\<close>; it raises \<open>ValueError\<close> on a suffix that is not one and
  on a path with an empty name.\<close>

definition with_suffix :: "path \<Rightarrow> pystr \<Rightarrow> exn + path" where
  "with_suffix p sfx =
     (if SEP \<in> set sfx then Inl (value_error (ascii ''Invalid suffix '' @ quoted sfx))
      else if (sfx \<noteq> [] \<and> hd sfx \<noteq> DOT) \<or> sfx = [DOT]
        then Inl (value_error (ascii ''Invalid suffix '' @ quoted sfx))
      else if path_name p = [] then Inl (value_error (path_repr p @ ascii '' has an empty name''))
      else
        (let old_suffix = path_suffix p;
             name' = (if old_suffix = [] then path_name p @ sfx
                      else take (length (path_name p) - length old_suffix) (path_name p) @ sfx)
         in Inr (p\<lparr>path_parts := butlast (path_parts p) @ [name']\<rparr>)))"

text \<open>\<open>p.parent\<close>: the path without its final component (a bare root or \<open>.\<close> is its own
  parent).\<close>

definition parent :: "path \<Rightarrow> path" where
  "parent p = p\<lparr>path_parts := butlast (path_parts p)\<rparr>"

text \<open>\<open>p / s\<close>: an absolute \<open>s\<close> replaces \<open>p\<close>, a relative one is appended.\<close>

definition path_div :: "path \<Rightarrow> pystr \<Rightarrow> path" where
  "path_div p s =
     (let q = Path s in
      if path_root q \<noteq> [] then q else p\<lparr>path_parts := path_parts p @ path_parts q\<rparr>)"

text \<open>The directories \<open>p.mkdir(parents=True)\<close> makes sure of: \<open>p\<close> and every ancestor.\<close>

definition ancestors :: "path \<Rightarrow> path list" where
  "ancestors p =
     map (\<lambda>k. p\<lparr>path_parts := take k (path_parts p)\<rparr>) (rev [0 ..< Suc (length (path_parts p))])"

section \<open>The world outside the process\<close>

text \<open>
  The engine, the file system and the subprocesses are outside the program.  Every call
  to them is recorded, in order, in the \<open>trace\<close> of the world; what they answer is
  given by the environment \<open>env\<close>, which may look at the whole world so far (so the
  engine may answer differently from one poll to the next).
\<close>

datatype http_method = GET | POST

record request =
  verb :: http_method
  url :: pystr
  params :: "(pystr \<times> json) list"
  json_arg :: "json option"
  timeout :: nat

text \<open>An HTTP response: its status, its body, what \<open>response.json()\<close> gives for the body,
  and the text httpx gives the \<open>HTTPStatusError\<close> it raises for it.\<close>

record response =
  status_code :: int
  content :: bytes
  json_result :: "exn + json"
  status_error_text :: pystr

datatype event =
    Http request
  | Exists pystr
  | Run "pystr list" "pystr option"
  | Sleep nat
  | Stderr pystr
  | Mkdir pystr
  | WriteBytes pystr bytes
  | MkTemp pystr
  | Unlink pystr

record world =
  files :: "pystr \<rightharpoonup> bytes"
  dirs :: "pystr set"
  trace :: "event list"

text \<open>
  The configuration read from the process environment at import time (lines 18 to 23
  of \<^verbatim>\<open>server.py\<close>), the answers of the outside world, and the parts of Python's own
  library that are left as parameters: the \<open>repr\<close> of a float and of a container,
  \<open>str.lower\<close> on text that is not all ASCII, the name \<open>tempfile\<close> picks, and the text
  of a \<open>CalledProcessError\<close>.
\<close>

record env =
  VOICEVOX_URL :: pystr
  SPEAKER_ID :: int
  AUTO_START_ENGINE :: bool
  PROJECT_DIR :: path
  http_answer :: "world \<Rightarrow> request \<Rightarrow> exn + response"
  fs_fault :: "world \<Rightarrow> event \<Rightarrow> exn option"
  run_answer :: "world \<Rightarrow> pystr list \<Rightarrow> pystr option \<Rightarrow> exn + int"
  temp_stem :: "world \<Rightarrow> pystr"
  float_str :: "pyfloat \<Rightarrow> pystr"
  repr_other :: "json \<Rightarrow> pystr"
  lower_unicode :: "pystr \<Rightarrow> pystr"
  called_process_text :: "pystr list \<Rightarrow> int \<Rightarrow> pystr"

text \<open>A computation on the world that returns a value or raises.\<close>

type_synonym 'a io = "world \<Rightarrow> (exn + 'a) \<times> world"

definition record_event :: "event \<Rightarrow> world \<Rightarrow> world" where
  "record_event e w = w\<lparr>trace := trace w @ [e]\<rparr>"

definition io_bind :: "'a io \<Rightarrow> ('a \<Rightarrow> 'b io) \<Rightarrow> 'b io" where
  "io_bind m f w = (case m w of (Inl e, w') \<Rightarrow> (Inl e, w') | (Inr x, w') \<Rightarrow> f x w')"

definition io_result :: "exn + 'a \<Rightarrow> 'a io" where
  "io_result r w = (r, w)"

text \<open>\<open>try: m finally: fin\<close>: \<open>fin\<close> runs however \<open>m\<close> ends; an exception of \<open>fin\<close>
  replaces the outcome of \<open>m\<close>.\<close>

definition try_finally :: "'a io \<Rightarrow> unit io \<Rightarrow> 'a io" where
  "try_finally m fin w =
     (case m w of
        (r, w1) \<Rightarrow> (case fin w1 of (Inl e, w2) \<Rightarrow> (Inl e, w2) | (Inr u, w2) \<Rightarrow> (r, w2)))"

text \<open>\<open>print(msg, file=sys.stderr)\<close> and \<open>time.sleep(n)\<close>.\<close>

definition print_stderr :: "pystr \<Rightarrow> unit io" where
  "print_stderr msg w = (Inr (), record_event (Stderr msg) w)"

definition sleep :: "nat \<Rightarrow> unit io" where
  "sleep n w = (Inr (), record_event (Sleep n) w)"

text \<open>One request of an httpx client.\<close>

definition client_request :: "env \<Rightarrow> request \<Rightarrow> response io" where
  "client_request E rq w = (http_answer E w rq, record_event (Http rq) w)"

text \<open>\<open>response.raise_for_status()\<close>: httpx raises unless the status is 2xx.\<close>

definition raise_for_status :: "response \<Rightarrow> exn + unit" where
  "raise_for_status r =
     (if 200 \<le> status_code r \<and> status_code r \<le> 299 then Inr ()
      else Inl (HTTPStatusError (status_code r) (status_error_text r)))"

text \<open>\<open>subprocess.run(argv, cwd=cwd, check=True)\<close>: the exit status, or the exception
  of a process that could not be started; a non-zero status raises
  \<open>CalledProcessError\<close>.\<close>

definition subprocess_run_check :: "env \<Rightarrow> pystr list \<Rightarrow> pystr option \<Rightarrow> unit io" where
  "subprocess_run_check E argv cwd w =
     (case run_answer E w argv cwd of
        Inl e \<Rightarrow> (Inl e, record_event (Run argv cwd) w)
      | Inr code \<Rightarrow>
          (if code = 0 then (Inr (), record_event (Run argv cwd) w)
           else (Inl (CalledProcessError code (called_process_text E argv code)),
                 record_event (Run argv cwd) w)))"

text \<open>\<open>p.exists()\<close>.\<close>

definition path_exists :: "path \<Rightarrow> bool io" where
  "path_exists p w =
     (Inr (path_str p \<in> dom (files w) \<or> path_str p \<in> dirs w), record_event (Exists (path_str p)) w)"

text \<open>\<open>p.mkdir(parents=True, exist_ok=True)\<close>: unless the file system refuses, \<open>p\<close> and
  all its ancestors are directories afterwards.\<close>

definition mkdir_parents :: "env \<Rightarrow> path \<Rightarrow> unit io" where
  "mkdir_parents E p w =
     (case fs_fault E w (Mkdir (path_str p)) of
        Some e \<Rightarrow> (Inl e, record_event (Mkdir (path_str p)) w)
      | None \<Rightarrow>
          (Inr (), record_event (Mkdir (path_str p))
                     (w\<lparr>dirs := dirs w \<union> set (map path_str (ancestors p))\<rparr>)))"

text \<open>\<open>p.write_bytes(data)\<close>: unless the file system refuses, the file holds exactly
  \<open>data\<close> afterwards, whatever it held before.\<close>

definition write_bytes :: "env \<Rightarrow> path \<Rightarrow> bytes \<Rightarrow> unit io" where
  "write_bytes E p data w =
     (case fs_fault E w (WriteBytes (path_str p) data) of
        Some e \<Rightarrow> (Inl e, record_event (WriteBytes (path_str p) data) w)
      | None \<Rightarrow>
          (Inr (), record_event (WriteBytes (path_str p) data)
                     (w\<lparr>files := (files w)(path_str p \<mapsto> data)\<rparr>)))"

text \<open>Lines 274 to 276: \<open>NamedTemporaryFile(suffix=sfx, delete=False)\<close> creates a new
  file, the audio is written to it, and its name is kept.  The file stays when the
  write fails.\<close>

definition write_temp_file :: "env \<Rightarrow> pystr \<Rightarrow> bytes \<Rightarrow> pystr io" where
  "write_temp_file E sfx data w =
     (let nm = temp_stem E w @ sfx in
      case fs_fault E w (MkTemp nm) of
        Some e \<Rightarrow> (Inl e, record_event (MkTemp nm) w)
      | None \<Rightarrow>
          (let w1 = record_event (MkTemp nm) (w\<lparr>files := (files w)(nm \<mapsto> [])\<rparr>) in
           case fs_fault E w1 (WriteBytes nm data) of
             Some e \<Rightarrow> (Inl e, record_event (WriteBytes nm data) w1)
           | None \<Rightarrow>
               (Inr nm, record_event (WriteBytes nm data) (w1\<lparr>files := (files w1)(nm \<mapsto> data)\<rparr>))))"

text \<open>\<open>os.unlink(p)\<close>.\<close>

definition os_unlink :: "env \<Rightarrow> pystr \<Rightarrow> unit io" where
  "os_unlink E p w =
     (case fs_fault E w (Unlink p) of
        Some e \<Rightarrow> (Inl e, record_event (Unlink p) w)
      | None \<Rightarrow>
          (if p \<in> dom (files w)
           then (Inr (), record_event (Unlink p) (w\<lparr>files := (files w)(p := None)\<rparr>))
           else (Inl (FileNotFoundError
                        (ascii ''[Errno 2] No such file or directory: '' @ quoted p)),
                 record_event (Unlink p) w)))"

section \<open>Engine lifecycle (lines 29 to 78)\<close>

definition version_request :: "env \<Rightarrow> request" where
  "version_request E =
     \<lparr>verb = GET, url = VOICEVOX_URL E @ ascii ''/version'', params = [],
      json_arg = None, timeout = 2\<rparr>"

definition is_engine_running :: "env \<Rightarrow> world \<Rightarrow> bool \<times> world" where
  "is_engine_running E w =
     (case client_request E (version_request E) w of
        (Inr response, w') \<Rightarrow> (status_code response = 200, w')
      | (Inl e, w') \<Rightarrow> (False, w'))"

definition docker_argv :: "pystr list" where
  "docker_argv = [ascii ''docker'', ascii ''compose'', ascii ''up'', ascii ''-d'']"

definition start_engine :: "env \<Rightarrow> bool io" where
  "start_engine E =
     (let compose_file = path_div (PROJECT_DIR E) (ascii ''docker-compose.yml'') in
      io_bind (path_exists compose_file) (\<lambda>found.
        if \<not> found then
          io_bind (print_stderr (ascii ''docker-compose.yml not found, skipping auto-start''))
            (\<lambda>u. io_result (Inr False))
        else
          (\<lambda>w. case subprocess_run_check E docker_argv (Some (path_str (PROJECT_DIR E))) w of
                  (Inr u, w') \<Rightarrow> (Inr True, w')
                | (Inl (CalledProcessError c m), w') \<Rightarrow>
                    io_bind (print_stderr (ascii ''Failed to start VOICEVOX Engine: '' @ m))
                      (\<lambda>u. io_result (Inr False)) w'
                | (Inl (FileNotFoundError m), w') \<Rightarrow>
                    io_bind (print_stderr (ascii ''docker command not found''))
                      (\<lambda>u. io_result (Inr False)) w'
                | (Inl e, w') \<Rightarrow> (Inl e, w'))))"

text \<open>The polling loop of lines 73 to 78, by the number of rounds left.\<close>

fun wait_for_engine :: "env \<Rightarrow> nat \<Rightarrow> unit io" where
  "wait_for_engine E 0 w =
     print_stderr (ascii ''VOICEVOX Engine started but not responding yet'') w"
| "wait_for_engine E (Suc n) w =
     (case sleep 1 w of
        (u, w1) \<Rightarrow>
          (case is_engine_running E w1 of
             (True, w2) \<Rightarrow> print_stderr (ascii ''VOICEVOX Engine started successfully'') w2
           | (False, w2) \<Rightarrow> wait_for_engine E n w2))"

definition ensure_engine_running :: "env \<Rightarrow> unit io" where
  "ensure_engine_running E w =
     (if \<not> AUTO_START_ENGINE E then (Inr (), w)
      else
        (case is_engine_running E w of
           (True, w1) \<Rightarrow> (Inr (), w1)
         | (False, w1) \<Rightarrow>
             io_bind (print_stderr (ascii ''VOICEVOX Engine not running, starting...''))
               (\<lambda>u. io_bind (start_engine E)
                 (\<lambda>started. if started then wait_for_engine E 30 else io_result (Inr ()))) w1))"

section \<open>Messages\<close>

text \<open>The literals of the messages, by code point.  \<open>ERR\<close> is the prefix
  \<open>U+30A8 U+30E9 U+30FC ': '\<close> ("error: ") every failure message starts with.\<close>

definition ERR :: pystr where
  "ERR = [0x30A8, 0x30E9, 0x30FC] @ ascii '': ''"

text \<open>Lines 151, 153, 155, 157 (and 240 to 246): the same sentence for each parameter,
  with the parameter's name, the two bounds as the literal prints them, and the value.\<close>

definition range_error :: "env \<Rightarrow> string \<Rightarrow> string \<Rightarrow> string \<Rightarrow> pyfloat \<Rightarrow> pystr" where
  "range_error E nm lo hi v =
     ERR @ ascii nm @ [0x306F] @ ascii lo @ [0x304B, 0x3089] @ ascii hi
       @ [0x306E, 0x7BC4, 0x56F2, 0x3067, 0x6307, 0x5B9A, 0x3057, 0x3066, 0x304F, 0x3060,
          0x3055, 0x3044]
       @ ascii '' ('' @ [0x6307, 0x5B9A, 0x5024] @ ascii '': '' @ float_str E v @ ascii '')''"

text \<open>Lines 107, 196, 289.\<close>

definition connect_error_message :: "env \<Rightarrow> pystr" where
  "connect_error_message E =
     ERR @ ascii ''VOICEVOX Engine ('' @ VOICEVOX_URL E @ ascii '') ''
       @ [0x306B, 0x63A5, 0x7D9A, 0x3067, 0x304D, 0x307E, 0x305B, 0x3093, 0x3002]
       @ ascii ''Docker''
       @ [0x30B3, 0x30F3, 0x30C6, 0x30CA, 0x304C, 0x8D77, 0x52D5, 0x3057, 0x3066, 0x3044,
          0x308B, 0x304B, 0x78BA, 0x8A8D, 0x3057, 0x3066, 0x304F, 0x3060, 0x3055, 0x3044,
          0x3002]"

text \<open>Lines 109, 198, 291.\<close>

definition status_error_message :: "int \<Rightarrow> pystr" where
  "status_error_message code =
     ERR @ ascii ''VOICEVOX API '' @ [0x30A8, 0x30E9, 0x30FC] @ ascii '' (status: ''
       @ str_int code @ ascii '')''"

text \<open>Lines 111, 202, 297: the catch-all.\<close>

definition other_error_message :: "exn \<Rightarrow> pystr" where
  "other_error_message e = ERR @ exn_type_name e @ ascii '': '' @ exn_str e"

text \<open>Line 200.\<close>

definition permission_error_message :: "path \<Rightarrow> pystr" where
  "permission_error_message output_file =
     ERR @ [0x30D5, 0x30A1, 0x30A4, 0x30EB, 0x306E, 0x66F8, 0x304D, 0x8FBC, 0x307F, 0x6A29,
            0x9650, 0x304C, 0x3042, 0x308A, 0x307E, 0x305B, 0x3093]
       @ ascii '': '' @ path_str output_file"

text \<open>Line 293.\<close>

definition ffplay_missing_message :: pystr where
  "ffplay_missing_message =
     ERR @ ascii ''ffplay''
       @ [0x304C, 0x898B, 0x3064, 0x304B, 0x308A, 0x307E, 0x305B, 0x3093, 0x3002]
       @ ascii ''FFmpeg''
       @ [0x3092, 0x30A4, 0x30F3, 0x30B9, 0x30C8, 0x30FC, 0x30EB, 0x3057, 0x3066, 0x304F,
          0x3060, 0x3055, 0x3044, 0x3002]"

text \<open>Line 295.\<close>

definition playback_failed_message :: "int \<Rightarrow> pystr" where
  "playback_failed_message code =
     ERR @ [0x97F3, 0x58F0, 0x518D, 0x751F, 0x306B, 0x5931, 0x6557, 0x3057, 0x307E, 0x3057,
            0x305F]
       @ ascii '' (code: '' @ str_int code @ ascii '')''"

text \<open>Line 193.\<close>

definition saved_message :: "path \<Rightarrow> pystr" where
  "saved_message output_file =
     [0x97F3, 0x58F0, 0x30D5, 0x30A1, 0x30A4, 0x30EB, 0x3092, 0x4FDD, 0x5B58, 0x3057, 0x307E,
      0x3057, 0x305F]
       @ ascii '': '' @ path_str output_file"

text \<open>Line 286: the first 20 characters of the text, and an ellipsis when it is longer.\<close>

definition played_message :: "pystr \<Rightarrow> pystr" where
  "played_message text =
     [0x300C] @ take 20 text @ (if length text > 20 then ascii ''...'' else [])
       @ [0x300D, 0x3092, 0x518D, 0x751F, 0x3057, 0x307E, 0x3057, 0x305F]"

text \<open>Line 104: the heading of the listing.\<close>

definition speakers_heading :: pystr where
  "speakers_heading =
     [0x5229, 0x7528, 0x53EF, 0x80FD, 0x306A, 0x30B9, 0x30D4, 0x30FC, 0x30AB, 0x30FC, 0x4E00,
      0x89A7] @ ascii '':''"

text \<open>Line 102: one line of the listing; the brackets are \<open>U+FF08\<close> and \<open>U+FF09\<close>.\<close>

definition speaker_line :: "env \<Rightarrow> json \<Rightarrow> json \<Rightarrow> json \<Rightarrow> pystr" where
  "speaker_line E nm style_name style_id =
     ascii ''- '' @ py_format (repr_other E) nm @ [0xFF08]
       @ py_format (repr_other E) style_name @ [0xFF09]
       @ ascii '': speaker_id='' @ py_format (repr_other E) style_id"

section \<open>The tool list_speakers (lines 82 to 111)\<close>

definition speakers_request :: "env \<Rightarrow> request" where
  "speakers_request E =
     \<lparr>verb = GET, url = VOICEVOX_URL E @ ascii ''/speakers'', params = [],
      json_arg = None, timeout = 10\<rparr>"

text \<open>The inner loop (lines 99 to 102) and the outer loop (lines 96 to 102).  An
  exception ends the loops; the lines gathered so far are lost with it.\<close>

fun style_lines :: "env \<Rightarrow> json \<Rightarrow> json list \<Rightarrow> exn + pystr list" where
  "style_lines E nm [] = Inr []"
| "style_lines E nm (style # styles) =
     (case py_getitem style (ascii ''name'') of
        Inl e \<Rightarrow> Inl e
      | Inr style_name \<Rightarrow>
          (case py_getitem style (ascii ''id'') of
             Inl e \<Rightarrow> Inl e
           | Inr style_id \<Rightarrow>
               (case style_lines E nm styles of
                  Inl e \<Rightarrow> Inl e
                | Inr ls \<Rightarrow> Inr (speaker_line E nm style_name style_id # ls))))"

fun speaker_lines :: "env \<Rightarrow> json list \<Rightarrow> exn + pystr list" where
  "speaker_lines E [] = Inr []"
| "speaker_lines E (speaker # speakers) =
     (case py_getitem speaker (ascii ''name'') of
        Inl e \<Rightarrow> Inl e
      | Inr nm \<Rightarrow>
          (case py_get speaker (ascii ''styles'') (JArr []) of
             Inl e \<Rightarrow> Inl e
           | Inr styles \<Rightarrow>
               (case py_iter styles of
                  Inl e \<Rightarrow> Inl e
                | Inr ss \<Rightarrow>
                    (case style_lines E nm ss of
                       Inl e \<Rightarrow> Inl e
                     | Inr ls \<Rightarrow>
                         (case speaker_lines E speakers of
                            Inl e \<Rightarrow> Inl e
                          | Inr rest \<Rightarrow> Inr (ls @ rest))))))"

text \<open>Lines 93 to 104, from the response on.\<close>

definition render_speakers :: "env \<Rightarrow> response \<Rightarrow> exn + pystr" where
  "render_speakers E response =
     (case raise_for_status response of
        Inl e \<Rightarrow> Inl e
      | Inr u \<Rightarrow>
          (case json_result response of
             Inl e \<Rightarrow> Inl e
           | Inr speakers \<Rightarrow>
               (case py_iter speakers of
                  Inl e \<Rightarrow> Inl e
                | Inr sps \<Rightarrow>
                    (case speaker_lines E sps of
                       Inl e \<Rightarrow> Inl e
                     | Inr lines \<Rightarrow> Inr (speakers_heading @ [10] @ join [10] lines)))))"

text \<open>The body of the \<open>try\<close> (lines 90 to 104) and the \<open>except\<close> clauses (lines 106 to
  111).\<close>

definition list_speakers_try :: "env \<Rightarrow> pystr io" where
  "list_speakers_try E =
     io_bind (client_request E (speakers_request E))
       (\<lambda>response. io_result (render_speakers E response))"

fun list_speakers_except :: "env \<Rightarrow> exn \<Rightarrow> pystr" where
  "list_speakers_except E (ConnectError m) = connect_error_message E"
| "list_speakers_except E (HTTPStatusError code m) = status_error_message code"
| "list_speakers_except E e = other_error_message e"

definition list_speakers :: "env \<Rightarrow> pystr io" where
  "list_speakers E w =
     (case list_speakers_try E w of
        (Inr s, w') \<Rightarrow> (Inr s, w')
      | (Inl e, w') \<Rightarrow> (Inr (list_speakers_except E e), w'))"

section \<open>What save_audio and speak_text share\<close>

text \<open>Lines 140 to 147 and 229 to 236: a parameter that is \<open>None\<close> takes its default.\<close>

definition or_default :: "pyfloat option \<Rightarrow> real \<Rightarrow> pyfloat" where
  "or_default v d = (case v of None \<Rightarrow> Finite d | Some x \<Rightarrow> x)"

text \<open>Lines 150 to 157 and 239 to 246: the range checks, in the order of the source.
  \<open>a <= x <= b\<close> is \<open>a <= x and x <= b\<close>.  The result is the message returned, or
  \<open>None\<close> when all four checks pass.\<close>

definition validate_ranges ::
  "env \<Rightarrow> pyfloat \<Rightarrow> pyfloat \<Rightarrow> pyfloat \<Rightarrow> pyfloat \<Rightarrow> pystr option" where
  "validate_ranges E speed pitch intonation volume =
     (if \<not> (float_le (Finite (1 / 2)) speed \<and> float_le speed (Finite 2))
        then Some (range_error E ''speed'' ''0.5'' ''2.0'' speed)
      else if \<not> (float_le (Finite (- (15 / 100))) pitch \<and> float_le pitch (Finite (15 / 100)))
        then Some (range_error E ''pitch'' ''-0.15'' ''0.15'' pitch)
      else if \<not> (float_le (Finite 0) intonation \<and> float_le intonation (Finite 2))
        then Some (range_error E ''intonation'' ''0.0'' ''2.0'' intonation)
      else if \<not> (float_le (Finite 0) volume \<and> float_le volume (Finite 2))
        then Some (range_error E ''volume'' ''0.0'' ''2.0'' volume)
      else None)"

text \<open>Lines 166 to 187 and 250 to 271, the same in both tools: the two requests to the
  engine, with the four scales written into the query between them.\<close>

definition audio_query_request :: "env \<Rightarrow> pystr \<Rightarrow> int \<Rightarrow> request" where
  "audio_query_request E text speaker_id =
     \<lparr>verb = POST, url = VOICEVOX_URL E @ ascii ''/audio_query'',
      params = [(ascii ''text'', JStr text), (ascii ''speaker'', JInt speaker_id)],
      json_arg = None, timeout = 60\<rparr>"

definition synthesis_request :: "env \<Rightarrow> int \<Rightarrow> json \<Rightarrow> request" where
  "synthesis_request E speaker_id audio_query =
     \<lparr>verb = POST, url = VOICEVOX_URL E @ ascii ''/synthesis'',
      params = [(ascii ''speaker'', JInt speaker_id)],
      json_arg = Some audio_query, timeout = 60\<rparr>"

definition apply_settings ::
  "json \<Rightarrow> pyfloat \<Rightarrow> pyfloat \<Rightarrow> pyfloat \<Rightarrow> pyfloat \<Rightarrow> exn + json" where
  "apply_settings audio_query speed pitch intonation volume =
     (case py_setitem audio_query (ascii ''speedScale'') (JFloat speed) of
        Inl e \<Rightarrow> Inl e
      | Inr q1 \<Rightarrow>
          (case py_setitem q1 (ascii ''pitchScale'') (JFloat pitch) of
             Inl e \<Rightarrow> Inl e
           | Inr q2 \<Rightarrow>
               (case py_setitem q2 (ascii ''intonationScale'') (JFloat intonation) of
                  Inl e \<Rightarrow> Inl e
                | Inr q3 \<Rightarrow> py_setitem q3 (ascii ''volumeScale'') (JFloat volume))))"

definition synthesize ::
  "env \<Rightarrow> pystr \<Rightarrow> int \<Rightarrow> pyfloat \<Rightarrow> pyfloat \<Rightarrow> pyfloat \<Rightarrow> pyfloat \<Rightarrow> bytes io" where
  "synthesize E text speaker_id speed pitch intonation volume =
     io_bind (client_request E (audio_query_request E text speaker_id)) (\<lambda>query_response.
     io_bind (io_result (raise_for_status query_response)) (\<lambda>u.
     io_bind (io_result (json_result query_response)) (\<lambda>audio_query.
     io_bind (io_result (apply_settings audio_query speed pitch intonation volume)) (\<lambda>audio_query.
     io_bind (client_request E (synthesis_request E speaker_id audio_query)) (\<lambda>synthesis_response.
     io_bind (io_result (raise_for_status synthesis_response)) (\<lambda>u.
     io_result (Inr (content synthesis_response))))))))"

section \<open>The tool save_audio (lines 115 to 202)\<close>

text \<open>\<open>s.lower()\<close>: on ASCII text the capital letters \<open>A\<close> to \<open>Z\<close> become small; on
  other text it is Unicode's lower-casing, a parameter of the environment.\<close>

definition ascii_lower :: "nat \<Rightarrow> nat" where
  "ascii_lower c = (if 65 \<le> c \<and> c \<le> 90 then c + 32 else c)"

definition py_lower :: "env \<Rightarrow> pystr \<Rightarrow> pystr" where
  "py_lower E s = (if list_all (\<lambda>c. c < 128) s then map ascii_lower s else lower_unicode E s)"

text \<open>Lines 161 and 162, the normalization of the output path, as a step on paths.\<close>

definition ensure_wav :: "env \<Rightarrow> path \<Rightarrow> exn + path" where
  "ensure_wav E output_file =
     (if py_lower E (path_suffix output_file) \<noteq> ascii ''.wav''
      then with_suffix output_file (ascii ''.wav'')
      else Inr output_file)"

text \<open>The body of the \<open>try\<close> (lines 165 to 193) and the \<open>except\<close> clauses (lines 195 to
  202).\<close>

definition save_audio_try ::
  "env \<Rightarrow> pystr \<Rightarrow> int \<Rightarrow> pyfloat \<Rightarrow> pyfloat \<Rightarrow> pyfloat \<Rightarrow> pyfloat \<Rightarrow> path \<Rightarrow> pystr io" where
  "save_audio_try E text speaker_id speed pitch intonation volume output_file =
     io_bind (synthesize E text speaker_id speed pitch intonation volume) (\<lambda>audio_data.
     io_bind (mkdir_parents E (parent output_file)) (\<lambda>u.
     io_bind (write_bytes E output_file audio_data) (\<lambda>u.
     io_result (Inr (saved_message output_file)))))"

fun save_audio_except :: "env \<Rightarrow> path \<Rightarrow> exn \<Rightarrow> pystr" where
  "save_audio_except E output_file (ConnectError m) = connect_error_message E"
| "save_audio_except E output_file (HTTPStatusError code m) = status_error_message code"
| "save_audio_except E output_file (PermissionError m) = permission_error_message output_file"
| "save_audio_except E output_file e = other_error_message e"

text \<open>The tool.  \<open>Inl\<close> is an exception that leaves the handler.  Lines 139 to 162 stand
  before the \<open>try\<close>: an exception raised there is not caught.\<close>

definition save_audio ::
  "env \<Rightarrow> pystr \<Rightarrow> pystr \<Rightarrow> int option \<Rightarrow> pyfloat option \<Rightarrow> pyfloat option \<Rightarrow>
   pyfloat option \<Rightarrow> pyfloat option \<Rightarrow> pystr io" where
  "save_audio E text output_path speaker speed pitch intonation volume w =
     (let speaker_id = (case speaker of Some s \<Rightarrow> s | None \<Rightarrow> SPEAKER_ID E);
          speed' = or_default speed 1;
          pitch' = or_default pitch 0;
          intonation' = or_default intonation 1;
          volume' = or_default volume 1
      in case validate_ranges E speed' pitch' intonation' volume' of
           Some msg \<Rightarrow> (Inr msg, w)
         | None \<Rightarrow>
             (case ensure_wav E (Path output_path) of
                Inl e \<Rightarrow> (Inl e, w)
              | Inr output_file \<Rightarrow>
                  (case save_audio_try E text speaker_id speed' pitch' intonation' volume'
                          output_file w of
                     (Inr s, w') \<Rightarrow> (Inr s, w')
                   | (Inl e, w') \<Rightarrow> (Inr (save_audio_except E output_file e), w'))))"

section \<open>The tool speak_text (lines 206 to 297)\<close>

definition ffplay_argv :: "pystr \<Rightarrow> pystr list" where
  "ffplay_argv temp_path =
     [ascii ''ffplay'', ascii ''-nodisp'', ascii ''-autoexit'', ascii ''-loglevel'',
      ascii ''quiet'', temp_path]"

text \<open>Lines 274 to 284: the temporary file, the player, and the \<open>finally\<close> that unlinks
  the file.\<close>

definition play_audio :: "env \<Rightarrow> bytes \<Rightarrow> unit io" where
  "play_audio E audio_data =
     io_bind (write_temp_file E (ascii ''.wav'') audio_data) (\<lambda>temp_path.
       try_finally (subprocess_run_check E (ffplay_argv temp_path) None)
                   (os_unlink E temp_path))"

definition speak_text_try ::
  "env \<Rightarrow> pystr \<Rightarrow> int \<Rightarrow> pyfloat \<Rightarrow> pyfloat \<Rightarrow> pyfloat \<Rightarrow> pyfloat \<Rightarrow> pystr io" where
  "speak_text_try E text speaker_id speed pitch intonation volume =
     io_bind (synthesize E text speaker_id speed pitch intonation volume) (\<lambda>audio_data.
     io_bind (play_audio E audio_data) (\<lambda>u.
     io_result (Inr (played_message text))))"

fun speak_text_except :: "env \<Rightarrow> exn \<Rightarrow> pystr" where
  "speak_text_except E (ConnectError m) = connect_error_message E"
| "speak_text_except E (HTTPStatusError code m) = status_error_message code"
| "speak_text_except E (FileNotFoundError m) = ffplay_missing_message"
| "speak_text_except E (CalledProcessError code m) = playback_failed_message code"
| "speak_text_except E e = other_error_message e"

definition speak_text ::
  "env \<Rightarrow> pystr \<Rightarrow> int option \<Rightarrow> pyfloat option \<Rightarrow> pyfloat option \<Rightarrow>
   pyfloat option \<Rightarrow> pyfloat option \<Rightarrow> pystr io" where
  "speak_text E text speaker speed pitch intonation volume w =
     (let speaker_id = (case speaker of Some s \<Rightarrow> s | None \<Rightarrow> SPEAKER_ID E);
          speed' = or_default speed 1;
          pitch' = or_default pitch 0;
          intonation' = or_default intonation 1;
          volume' = or_default volume 1
      in case validate_ranges E speed' pitch' intonation' volume' of
           Some msg \<Rightarrow> (Inr msg, w)
         | None \<Rightarrow>
             (case speak_text_try E text speaker_id speed' pitch' intonation' volume' w of
                (Inr s, w') \<Rightarrow> (Inr s, w')
              | (Inl e, w') \<Rightarrow> (Inr (speak_text_except E e), w')))"

section \<open>Notions used to state the properties\<close>

text \<open>The documented domains (docstrings, lines 131 to 134 and 220 to 223): speed in
  \<open>[0.5, 2.0]\<close>, pitch in \<open>[-0.15, 0.15]\<close>, intonation and volume in \<open>[0.0, 2.0]\<close>.  A
  value that is not a finite number is in no domain.\<close>

definition in_range :: "real \<Rightarrow> real \<Rightarrow> pyfloat \<Rightarrow> bool" where
  "in_range lo hi v = (case v of Finite r \<Rightarrow> lo \<le> r \<and> r \<le> hi | PosInf \<Rightarrow> False
                       | NegInf \<Rightarrow> False | NaN \<Rightarrow> False)"

definition documented_domain :: "string \<Rightarrow> pyfloat \<Rightarrow> bool" where
  "documented_domain nm v =
     (if nm = ''speed'' then in_range (1 / 2) 2 v
      else if nm = ''pitch'' then in_range (- (15 / 100)) (15 / 100) v
      else if nm = ''intonation'' then in_range 0 2 v
      else if nm = ''volume'' then in_range 0 2 v
      else False)"

text \<open>A speaker catalog as the engine's \<open>/speakers\<close> answers it: a JSON object per
  speaker with a string \<open>name\<close> and a list \<open>styles\<close> of objects, each with a string
  \<open>name\<close> and an integer \<open>id\<close>; the objects may hold other keys as well.\<close>

type_synonym style = "pystr \<times> int"
type_synonym speaker = "pystr \<times> style list"

definition is_style :: "json \<Rightarrow> style \<Rightarrow> bool" where
  "is_style j st =
     (case j of
        JObj kvs \<Rightarrow> map_of kvs (ascii ''name'') = Some (JStr (fst st))
                    \<and> map_of kvs (ascii ''id'') = Some (JInt (snd st))
      | _ \<Rightarrow> False)"

definition is_speaker :: "json \<Rightarrow> speaker \<Rightarrow> bool" where
  "is_speaker j sp =
     (case j of
        JObj kvs \<Rightarrow>
          map_of kvs (ascii ''name'') = Some (JStr (fst sp))
          \<and> (case map_of kvs (ascii ''styles'') of
                Some (JArr ss) \<Rightarrow> list_all2 is_style ss (snd sp)
              | _ \<Rightarrow> False)
      | _ \<Rightarrow> False)"

text \<open>The lines the listing should show for a catalog: one per speaker and style.\<close>

definition catalog_lines :: "env \<Rightarrow> speaker list \<Rightarrow> pystr list" where
  "catalog_lines E cat =
     concat (map (\<lambda>sp. map (\<lambda>st. speaker_line E (JStr (fst sp)) (JStr (fst st)) (JInt (snd st)))
                            (snd sp)) cat)"

text \<open>A catalog whose speaker names and style names hold no line feed, so that each of
  its lines is one line of the output.\<close>

definition single_line_names :: "speaker list \<Rightarrow> bool" where
  "single_line_names cat =
     list_all (\<lambda>sp. 10 \<notin> set (fst sp) \<and> list_all (\<lambda>st. 10 \<notin> set (fst st)) (snd sp)) cat"

text \<open>A message names the parameter \<open>nm\<close> and its value \<open>v\<close>, and no other parameter:
  it ends with the printed value and a closing bracket, and the text before the value
  starts with the error prefix, contains \<open>nm\<close>, and contains none of the other three
  parameter names.\<close>

definition names_only :: "env \<Rightarrow> pystr \<Rightarrow> string \<Rightarrow> pyfloat \<Rightarrow> bool" where
  "names_only E msg nm v =
     (\<exists>head. msg = head @ float_str E v @ ascii '')''
        \<and> prefix ERR head \<and> sublist (ascii nm) head
        \<and> list_all (\<lambda>other. other = nm \<or> \<not> sublist (ascii other) head)
             [''speed'', ''pitch'', ''intonation'', ''volume''])"

section \<open>A sample environment\<close>

text \<open>An engine that answers every request with status 200, the four bytes \<open>RIFF\<close> as
  body, a catalog of one speaker with two styles on a GET and a small query object on a
  POST; a file system that refuses nothing; a player that exits with 0.  The printing
  of floats is a stand-in that is right on \<open>3.0\<close> and on the values that are not
  finite.\<close>

definition sample_catalog :: json where
  "sample_catalog =
     JArr [JObj [(ascii ''name'', JStr (ascii ''Zundamon'')),
                 (ascii ''speaker_uuid'', JStr (ascii ''388f246b'')),
                 (ascii ''styles'',
                    JArr [JObj [(ascii ''name'', JStr (ascii ''Normal'')), (ascii ''id'', JInt 3),
                                (ascii ''type'', JStr (ascii ''talk''))],
                          JObj [(ascii ''name'', JStr (ascii ''Sweet'')), (ascii ''id'', JInt 1),
                                (ascii ''type'', JStr (ascii ''talk''))]])]]"

definition sample_http :: "world \<Rightarrow> request \<Rightarrow> exn + response" where
  "sample_http w rq =
     Inr \<lparr>status_code = 200, content = [82, 73, 70, 70],
          json_result =
            Inr (if verb rq = GET then sample_catalog
                 else JObj [(ascii ''speedScale'', JFloat (Finite 1)), (ascii ''kana'', JStr [])]),
          status_error_text = []\<rparr>"

definition sample_float_str :: "pyfloat \<Rightarrow> pystr" where
  "sample_float_str v =
     (case v of
        Finite r \<Rightarrow> (if r = 3 then ascii ''3.0'' else ascii ''<float>'')
      | PosInf \<Rightarrow> ascii ''inf''
      | NegInf \<Rightarrow> ascii ''-inf''
      | NaN \<Rightarrow> ascii ''nan'')"

definition sample_env :: env where
  "sample_env =
     \<lparr>VOICEVOX_URL = ascii ''http://localhost:50021'',
      SPEAKER_ID = 8,
      AUTO_START_ENGINE = True,
      PROJECT_DIR = Path (ascii ''/opt/voicevox''),
      http_answer = sample_http,
      fs_fault = (\<lambda>w e. None),
      run_answer = (\<lambda>w argv cwd. Inr 0),
      temp_stem = (\<lambda>w. ascii ''/tmp/tmpq1w2e3''),
      float_str = sample_float_str,
      repr_other = (\<lambda>v. ascii ''?''),
      lower_unicode = (\<lambda>s. s),
      called_process_text = (\<lambda>argv code. ascii ''Command failed'')\<rparr>"

definition empty_world :: world where
  "empty_world = \<lparr>files = Map.empty, dirs = {}, trace = []\<rparr>"

text \<open>The lines of the listing for the sample catalog: the heading, then one line for each
  of the two styles.\<close>

definition sample_listing :: "pystr list" where
  "sample_listing =
     [speakers_heading,
      ascii ''- Zundamon'' @ [0xFF08] @ ascii ''Normal'' @ [0xFF09] @ ascii '': speaker_id=3'',
      ascii ''- Zundamon'' @ [0xFF08] @ ascii ''Sweet'' @ [0xFF09] @ ascii '': speaker_id=1'']"

section \<open>Validation of the four scales\<close>

lemma float_le_between: "(float_le (Finite a) v \<and> float_le v (Finite b)) = in_range a b v"
  by (cases v) (simp_all add: in_range_def)

lemma validate_ranges_domain:
  "validate_ranges E sp pt nt vo =
     (if \<not> documented_domain ''speed'' sp then Some (range_error E ''speed'' ''0.5'' ''2.0'' sp)
      else if \<not> documented_domain ''pitch'' pt then Some (range_error E ''pitch'' ''-0.15'' ''0.15'' pt)
      else if \<not> documented_domain ''intonation'' nt
        then Some (range_error E ''intonation'' ''0.0'' ''2.0'' nt)
      else if \<not> documented_domain ''volume'' vo then Some (range_error E ''volume'' ''0.0'' ''2.0'' vo)
      else None)"
  by (simp add: validate_ranges_def float_le_between documented_domain_def)

lemma range_error_prefix: "prefix ERR (range_error E nm lo hi v)"
  by (simp add: range_error_def)

lemma range_error_names: "sublist (ascii nm) (range_error E nm lo hi v)"
  unfolding range_error_def by (metis sublist_appendI)

lemma range_error_value: "sublist (float_str E v) (range_error E nm lo hi v)"
proof -
  have "\<exists>ps ss. range_error E nm lo hi v = ps @ float_str E v @ ss"
    unfolding range_error_def by (metis append.assoc)
  then show ?thesis by (auto simp: sublist_def)
qed

lemma save_audio_invalid:
  "validate_ranges E (or_default speed 1) (or_default pitch 0) (or_default intonation 1)
      (or_default volume 1) = Some msg \<Longrightarrow>
   save_audio E text output_path speaker speed pitch intonation volume w = (Inr msg, w)"
  by (simp add: save_audio_def Let_def)

lemma speak_text_invalid:
  "validate_ranges E (or_default speed 1) (or_default pitch 0) (or_default intonation 1)
      (or_default volume 1) = Some msg \<Longrightarrow>
   speak_text E text speaker speed pitch intonation volume w = (Inr msg, w)"
  by (simp add: speak_text_def Let_def)

text \<open>
  Claim C1.  Whenever one of speed, pitch, intonation and volume (after the defaults for
  \<open>None\<close>) lies outside its documented domain, \<open>save_audio\<close> and \<open>speak_text\<close> both
  return a string that starts with the error prefix and contains the name of one such
  parameter and the printed form of its value; the world is returned as it was: no
  request, no file, no process, no entry in the trace.
\<close>

theorem out_of_domain_rejected:
  assumes "\<not> (documented_domain ''speed'' (or_default speed 1)
             \<and> documented_domain ''pitch'' (or_default pitch 0)
             \<and> documented_domain ''intonation'' (or_default intonation 1)
             \<and> documented_domain ''volume'' (or_default volume 1))"
  shows "\<exists>nm v msg.
           (nm, v) \<in> set [(''speed'', or_default speed 1), (''pitch'', or_default pitch 0),
                          (''intonation'', or_default intonation 1),
                          (''volume'', or_default volume 1)]
           \<and> \<not> documented_domain nm v
           \<and> prefix ERR msg \<and> sublist (ascii nm) msg \<and> sublist (float_str E v) msg
           \<and> save_audio E text output_path speaker speed pitch intonation volume w = (Inr msg, w)
           \<and> speak_text E text speaker speed pitch intonation volume w = (Inr msg, w)"
proof -
  let ?sp = "or_default speed 1" and ?pt = "or_default pitch 0"
  let ?nt = "or_default intonation 1" and ?vo = "or_default volume 1"
  consider (sp) "\<not> documented_domain ''speed'' ?sp"
    | (pt) "documented_domain ''speed'' ?sp" "\<not> documented_domain ''pitch'' ?pt"
    | (nt) "documented_domain ''speed'' ?sp" "documented_domain ''pitch'' ?pt"
           "\<not> documented_domain ''intonation'' ?nt"
    | (vo) "documented_domain ''speed'' ?sp" "documented_domain ''pitch'' ?pt"
           "documented_domain ''intonation'' ?nt" "\<not> documented_domain ''volume'' ?vo"
    using assms by blast
  then show ?thesis
  proof cases
    case sp
    then have v: "validate_ranges E ?sp ?pt ?nt ?vo = Some (range_error E ''speed'' ''0.5'' ''2.0'' ?sp)"
      by (simp add: validate_ranges_domain)
    show ?thesis
      apply (rule exI [of _ "''speed''"], rule exI [of _ ?sp])
      apply (rule exI [of _ "range_error E ''speed'' ''0.5'' ''2.0'' ?sp"])
      using sp save_audio_invalid [OF v] speak_text_invalid [OF v]
      by (simp add: range_error_prefix range_error_names range_error_value)
  next
    case pt
    then have v: "validate_ranges E ?sp ?pt ?nt ?vo = Some (range_error E ''pitch'' ''-0.15'' ''0.15'' ?pt)"
      by (simp add: validate_ranges_domain)
    show ?thesis
      apply (rule exI [of _ "''pitch''"], rule exI [of _ ?pt])
      apply (rule exI [of _ "range_error E ''pitch'' ''-0.15'' ''0.15'' ?pt"])
      using pt save_audio_invalid [OF v] speak_text_invalid [OF v]
      by (simp add: range_error_prefix range_error_names range_error_value)
  next
    case nt
    then have v: "validate_ranges E ?sp ?pt ?nt ?vo = Some (range_error E ''intonation'' ''0.0'' ''2.0'' ?nt)"
      by (simp add: validate_ranges_domain)
    show ?thesis
      apply (rule exI [of _ "''intonation''"], rule exI [of _ ?nt])
      apply (rule exI [of _ "range_error E ''intonation'' ''0.0'' ''2.0'' ?nt"])
      using nt save_audio_invalid [OF v] speak_text_invalid [OF v]
      by (simp add: range_error_prefix range_error_names range_error_value)
  next
    case vo
    then have v: "validate_ranges E ?sp ?pt ?nt ?vo = Some (range_error E ''volume'' ''0.0'' ''2.0'' ?vo)"
      by (simp add: validate_ranges_domain)
    show ?thesis
      apply (rule exI [of _ "''volume''"], rule exI [of _ ?vo])
      apply (rule exI [of _ "range_error E ''volume'' ''0.0'' ''2.0'' ?vo"])
      using vo save_audio_invalid [OF v] speak_text_invalid [OF v]
      by (simp add: range_error_prefix range_error_names range_error_value)
  qed
qed


theorem out_of_domain_rejected_witness:
  "\<not> (documented_domain ''speed'' (or_default (Some (Finite 3)) 1)
       \<and> documented_domain ''pitch'' (or_default None 0)
       \<and> documented_domain ''intonation'' (or_default None 1)
       \<and> documented_domain ''volume'' (or_default None 1))
   \<and> (\<exists>nm v msg.
           (nm, v) \<in> set [(''speed'', or_default (Some (Finite 3)) 1), (''pitch'', or_default None 0),
                          (''intonation'', or_default None 1), (''volume'', or_default None 1)]
           \<and> \<not> documented_domain nm v
           \<and> prefix ERR msg \<and> sublist (ascii nm) msg \<and> sublist (float_str sample_env v) msg
           \<and> save_audio sample_env (ascii ''hello'') (ascii ''out.wav'') None
                 (Some (Finite 3)) None None None empty_world = (Inr msg, empty_world)
           \<and> speak_text sample_env (ascii ''hello'') None
                 (Some (Finite 3)) None None None empty_world = (Inr msg, empty_world))"
proof -
  have h: "\<not> (documented_domain ''speed'' (or_default (Some (Finite 3)) 1)
       \<and> documented_domain ''pitch'' (or_default None 0)
       \<and> documented_domain ''intonation'' (or_default None 1)
       \<and> documented_domain ''volume'' (or_default None 1))"
    by (simp add: documented_domain_def in_range_def or_default_def)
  show ?thesis
    using h out_of_domain_rejected [OF h, of sample_env "ascii ''hello''" "ascii ''out.wav''" None empty_world]
    by blast
qed

lemma range_error_names_only:
  "names_only E (range_error E ''speed'' ''0.5'' ''2.0'' v) ''speed'' v"
  "names_only E (range_error E ''pitch'' ''-0.15'' ''0.15'' v) ''pitch'' v"
  "names_only E (range_error E ''intonation'' ''0.0'' ''2.0'' v) ''intonation'' v"
  "names_only E (range_error E ''volume'' ''0.0'' ''2.0'' v) ''volume'' v"
proof -
  let ?tail = "[0x306E, 0x7BC4, 0x56F2, 0x3067, 0x6307, 0x5B9A, 0x3057, 0x3066, 0x304F, 0x3060,
          0x3055, 0x3044] @ ascii '' ('' @ [0x6307, 0x5B9A, 0x5024] @ ascii '': ''"
  let ?head = "\<lambda>nm lo hi. ERR @ ascii nm @ [0x306F] @ ascii lo @ [0x304B, 0x3089] @ ascii hi @ ?tail"
  have split: "range_error E nm lo hi v = ?head nm lo hi @ float_str E v @ ascii '')''" for nm lo hi
    by (simp add: range_error_def)
  have pre: "prefix ERR (?head nm lo hi)" for nm lo hi by simp
  show "names_only E (range_error E ''speed'' ''0.5'' ''2.0'' v) ''speed'' v"
    unfolding names_only_def
    apply (rule exI [of _ "?head ''speed'' ''0.5'' ''2.0''"])
    apply (intro conjI split pre)
     apply (simp add: ERR_def ascii_def sublist_Cons_right)
    apply (simp add: ERR_def ascii_def sublist_Cons_right)
    done
  show "names_only E (range_error E ''pitch'' ''-0.15'' ''0.15'' v) ''pitch'' v"
    unfolding names_only_def
    apply (rule exI [of _ "?head ''pitch'' ''-0.15'' ''0.15''"])
    apply (intro conjI split pre)
     apply (simp add: ERR_def ascii_def sublist_Cons_right)
    apply (simp add: ERR_def ascii_def sublist_Cons_right)
    done
  show "names_only E (range_error E ''intonation'' ''0.0'' ''2.0'' v) ''intonation'' v"
    unfolding names_only_def
    apply (rule exI [of _ "?head ''intonation'' ''0.0'' ''2.0''"])
    apply (intro conjI split pre)
     apply (simp add: ERR_def ascii_def sublist_Cons_right)
    apply (simp add: ERR_def ascii_def sublist_Cons_right)
    done
  show "names_only E (range_error E ''volume'' ''0.0'' ''2.0'' v) ''volume'' v"
    unfolding names_only_def
    apply (rule exI [of _ "?head ''volume'' ''0.0'' ''2.0''"])
    apply (intro conjI split pre)
     apply (simp add: ERR_def ascii_def sublist_Cons_right)
    apply (simp add: ERR_def ascii_def sublist_Cons_right)
    done
qed


text \<open>
  Claim C8.  The checks run in the order speed, pitch, intonation, volume: the message
  returned by \<open>save_audio\<close> and by \<open>speak_text\<close> is the one of the first parameter, in
  that order, that is outside its domain, whatever the later parameters are.  That
  message ends with the printed value of that parameter and a closing bracket, and the
  text before the value starts with the error prefix, holds the name of that parameter
  and holds the name of none of the other three.
\<close>

theorem validation_order:
  fixes speed pitch intonation volume :: "pyfloat option"
  defines "sp \<equiv> or_default speed 1" and "pt \<equiv> or_default pitch 0"
    and "nt \<equiv> or_default intonation 1" and "vl \<equiv> or_default volume 1"
  shows
  "(\<not> documented_domain ''speed'' sp \<longrightarrow>
      save_audio E text output_path speaker speed pitch intonation volume w
        = (Inr (range_error E ''speed'' ''0.5'' ''2.0'' sp), w)
      \<and> speak_text E text speaker speed pitch intonation volume w
        = (Inr (range_error E ''speed'' ''0.5'' ''2.0'' sp), w)
      \<and> names_only E (range_error E ''speed'' ''0.5'' ''2.0'' sp) ''speed'' sp)
   \<and> (documented_domain ''speed'' sp \<and> \<not> documented_domain ''pitch'' pt \<longrightarrow>
      save_audio E text output_path speaker speed pitch intonation volume w
        = (Inr (range_error E ''pitch'' ''-0.15'' ''0.15'' pt), w)
      \<and> speak_text E text speaker speed pitch intonation volume w
        = (Inr (range_error E ''pitch'' ''-0.15'' ''0.15'' pt), w)
      \<and> names_only E (range_error E ''pitch'' ''-0.15'' ''0.15'' pt) ''pitch'' pt)
   \<and> (documented_domain ''speed'' sp \<and> documented_domain ''pitch'' pt
        \<and> \<not> documented_domain ''intonation'' nt \<longrightarrow>
      save_audio E text output_path speaker speed pitch intonation volume w
        = (Inr (range_error E ''intonation'' ''0.0'' ''2.0'' nt), w)
      \<and> speak_text E text speaker speed pitch intonation volume w
        = (Inr (range_error E ''intonation'' ''0.0'' ''2.0'' nt), w)
      \<and> names_only E (range_error E ''intonation'' ''0.0'' ''2.0'' nt) ''intonation'' nt)
   \<and> (documented_domain ''speed'' sp \<and> documented_domain ''pitch'' pt
        \<and> documented_domain ''intonation'' nt \<and> \<not> documented_domain ''volume'' vl \<longrightarrow>
      save_audio E text output_path speaker speed pitch intonation volume w
        = (Inr (range_error E ''volume'' ''0.0'' ''2.0'' vl), w)
      \<and> speak_text E text speaker speed pitch intonation volume w
        = (Inr (range_error E ''volume'' ''0.0'' ''2.0'' vl), w)
      \<and> names_only E (range_error E ''volume'' ''0.0'' ''2.0'' vl) ''volume'' vl)"
  unfolding sp_def pt_def nt_def vl_def
  by (simp add: save_audio_def speak_text_def Let_def validate_ranges_domain
        range_error_names_only)

theorem validation_order_witness:
  "\<not> documented_domain ''speed'' (Finite 3) \<and> \<not> documented_domain ''volume'' NaN
   \<and> save_audio sample_env (ascii ''hello'') (ascii ''out.wav'') None
        (Some (Finite 3)) None None (Some NaN) empty_world
        = (Inr (range_error sample_env ''speed'' ''0.5'' ''2.0'' (Finite 3)), empty_world)
   \<and> speak_text sample_env (ascii ''hello'') None (Some (Finite 3)) None None (Some NaN) empty_world
        = (Inr (range_error sample_env ''speed'' ''0.5'' ''2.0'' (Finite 3)), empty_world)
   \<and> names_only sample_env (range_error sample_env ''speed'' ''0.5'' ''2.0'' (Finite 3))
        ''speed'' (Finite 3)
   \<and> range_error sample_env ''speed'' ''0.5'' ''2.0'' (Finite 3)
        = [0x30A8, 0x30E9, 0x30FC] @ ascii '': speed'' @ [0x306F] @ ascii ''0.5''
            @ [0x304B, 0x3089] @ ascii ''2.0''
            @ [0x306E, 0x7BC4, 0x56F2, 0x3067, 0x6307, 0x5B9A, 0x3057, 0x3066, 0x304F, 0x3060,
               0x3055, 0x3044]
            @ ascii '' ('' @ [0x6307, 0x5B9A, 0x5024] @ ascii '': 3.0)''
   \<and> documented_domain ''speed'' (Finite 1) \<and> documented_domain ''pitch'' (Finite 0)
   \<and> \<not> documented_domain ''intonation'' PosInf
   \<and> save_audio sample_env (ascii ''hello'') (ascii ''out.wav'') None
        None None (Some PosInf) (Some NaN) empty_world
        = (Inr (range_error sample_env ''intonation'' ''0.0'' ''2.0'' PosInf), empty_world)
   \<and> names_only sample_env (range_error sample_env ''intonation'' ''0.0'' ''2.0'' PosInf)
        ''intonation'' PosInf"
proof -
  have d: "\<not> documented_domain ''speed'' (Finite 3)" "\<not> documented_domain ''volume'' NaN"
    "documented_domain ''speed'' (Finite 1)" "documented_domain ''pitch'' (Finite 0)"
    "\<not> documented_domain ''intonation'' PosInf"
    by (simp_all add: documented_domain_def in_range_def)
  have m: "range_error sample_env ''speed'' ''0.5'' ''2.0'' (Finite 3)
        = [0x30A8, 0x30E9, 0x30FC] @ ascii '': speed'' @ [0x306F] @ ascii ''0.5''
            @ [0x304B, 0x3089] @ ascii ''2.0''
            @ [0x306E, 0x7BC4, 0x56F2, 0x3067, 0x6307, 0x5B9A, 0x3057, 0x3066, 0x304F, 0x3060,
               0x3055, 0x3044]
            @ ascii '' ('' @ [0x6307, 0x5B9A, 0x5024] @ ascii '': 3.0)''"
    by (simp add: range_error_def ERR_def sample_env_def sample_float_str_def ascii_def)
  note t1 = validation_order [of "Some (Finite 3)" sample_env "ascii ''hello''" "ascii ''out.wav''"
      None None None "Some NaN" empty_world]
  note t2 = validation_order [of None sample_env "ascii ''hello''" "ascii ''out.wav''" None
      None "Some PosInf" "Some NaN" empty_world]
  have a: "save_audio sample_env (ascii ''hello'') (ascii ''out.wav'') None
        (Some (Finite 3)) None None (Some NaN) empty_world
        = (Inr (range_error sample_env ''speed'' ''0.5'' ''2.0'' (Finite 3)), empty_world)
   \<and> speak_text sample_env (ascii ''hello'') None (Some (Finite 3)) None None (Some NaN) empty_world
        = (Inr (range_error sample_env ''speed'' ''0.5'' ''2.0'' (Finite 3)), empty_world)
   \<and> names_only sample_env (range_error sample_env ''speed'' ''0.5'' ''2.0'' (Finite 3))
        ''speed'' (Finite 3)"
    using t1 d by (simp add: or_default_def)
  have b: "save_audio sample_env (ascii ''hello'') (ascii ''out.wav'') None
        None None (Some PosInf) (Some NaN) empty_world
        = (Inr (range_error sample_env ''intonation'' ''0.0'' ''2.0'' PosInf), empty_world)
   \<and> names_only sample_env (range_error sample_env ''intonation'' ''0.0'' ''2.0'' PosInf)
        ''intonation'' PosInf"
    using t2 d by (simp add: or_default_def)
  show ?thesis using a b d m by blast
qed

section \<open>Engine lifecycle\<close>

text \<open>
  Claim C6.  With auto-start disabled \<open>ensure_engine_running\<close> returns at once and the
  world is as it was: no request, no process, no entry in the trace.  With auto-start
  enabled and an engine that passes the availability check, the only thing done is that
  one check (a GET of \<open>/version\<close>): nothing is launched.
\<close>

theorem ensure_engine_running_skips:
  "(\<not> AUTO_START_ENGINE E \<longrightarrow> ensure_engine_running E w = (Inr (), w))
   \<and> (AUTO_START_ENGINE E \<and> fst (is_engine_running E w) \<longrightarrow>
        ensure_engine_running E w = (Inr (), record_event (Http (version_request E)) w)
        \<and> trace (snd (ensure_engine_running E w)) = trace w @ [Http (version_request E)])"
  by (auto simp: ensure_engine_running_def is_engine_running_def client_request_def record_event_def
           split: sum.splits prod.splits bool.splits)

theorem ensure_engine_running_skips_witness:
  "\<not> AUTO_START_ENGINE (sample_env\<lparr>AUTO_START_ENGINE := False\<rparr>)
   \<and> ensure_engine_running (sample_env\<lparr>AUTO_START_ENGINE := False\<rparr>) empty_world
       = (Inr (), empty_world)
   \<and> AUTO_START_ENGINE sample_env \<and> fst (is_engine_running sample_env empty_world)
   \<and> trace (snd (ensure_engine_running sample_env empty_world))
       = [Http (version_request sample_env)]"
proof -
  let ?E0 = "sample_env\<lparr>AUTO_START_ENGINE := False\<rparr>"
  have a: "\<not> AUTO_START_ENGINE ?E0" by simp
  have b: "AUTO_START_ENGINE sample_env \<and> fst (is_engine_running sample_env empty_world)"
    by (simp add: sample_env_def is_engine_running_def client_request_def sample_http_def)
  have c: "trace empty_world = []" by (simp add: empty_world_def)
  from a ensure_engine_running_skips [of ?E0 empty_world]
  have "ensure_engine_running ?E0 empty_world = (Inr (), empty_world)" by blast
  moreover from b ensure_engine_running_skips [of sample_env empty_world]
  have "trace (snd (ensure_engine_running sample_env empty_world))
          = trace empty_world @ [Http (version_request sample_env)]" by blast
  ultimately show ?thesis using a b c by simp
qed

section \<open>The output path\<close>

lemma rfind_bounds: "- 1 \<le> rfind c xs \<and> rfind c xs < int (length xs)"
  by (induction xs) (auto simp: Let_def)

lemma rfind_append:
  "rfind c (xs @ ys) = (if 0 \<le> rfind c ys then int (length xs) + rfind c ys else rfind c xs)"
proof (induction xs)
  case Nil
  show ?case using rfind_bounds [of c ys] by auto
next
  case (Cons x xs)
  then show ?case using rfind_bounds [of c ys] by (auto simp: Let_def)
qed

lemma rfind_wav: "rfind DOT (ascii ''.wav'') = 0"
  by (simp add: ascii_def DOT_def)

lemma name_with_wav:
  assumes "stem \<noteq> []"
  shows "(let nm = stem @ ascii ''.wav''; i = rfind DOT nm in
          if 0 < i \<and> i < int (length nm) - 1 then drop (nat i) nm else []) = ascii ''.wav''"
proof -
  have "rfind DOT (stem @ ascii ''.wav'') = int (length stem)"
    by (simp add: rfind_append rfind_wav)
  moreover have "length (ascii ''.wav'') = 4" by (simp add: ascii_def)
  ultimately show ?thesis using assms by (simp add: Let_def)
qed

lemma with_suffix_wav:
  assumes "with_suffix p (ascii ''.wav'') = Inr q"
  shows "path_suffix q = ascii ''.wav''"
    and "path_root q = path_root p"
    and "butlast (path_parts q) = butlast (path_parts p)"
    and "path_name q =
           take (length (path_name p) - length (path_suffix p)) (path_name p) @ ascii ''.wav''"
proof -
  define stem where "stem = take (length (path_name p) - length (path_suffix p)) (path_name p)"
  have sfx: "SEP \<notin> set (ascii ''.wav'')" "ascii ''.wav'' \<noteq> []" "hd (ascii ''.wav'') = DOT"
    "ascii ''.wav'' \<noteq> [DOT]"
    by (simp_all add: ascii_def SEP_def DOT_def)
  from assms sfx have nm: "path_name p \<noteq> []"
    by (auto simp: with_suffix_def split: if_splits)
  have q: "q = p\<lparr>path_parts := butlast (path_parts p) @ [stem @ ascii ''.wav'']\<rparr>"
    using assms sfx nm by (auto simp: with_suffix_def Let_def stem_def split: if_splits)
  have "stem \<noteq> []"
  proof (cases "path_suffix p = []")
    case True
    then show ?thesis using nm by (simp add: stem_def)
  next
    case False
    then obtain i where i: "0 < i" "i < int (length (path_name p)) - 1"
      "path_suffix p = drop (nat i) (path_name p)"
      by (auto simp: path_suffix_def Let_def split: if_splits)
    then show ?thesis by (auto simp: stem_def)
  qed
  then have "path_suffix q = ascii ''.wav''"
    using name_with_wav [of stem] by (simp add: q path_suffix_def path_name_def)
  then show "path_suffix q = ascii ''.wav''" .
  show "path_root q = path_root p" by (simp add: q)
  show "butlast (path_parts q) = butlast (path_parts p)" by (simp add: q)
  show "path_name q =
           take (length (path_name p) - length (path_suffix p)) (path_name p) @ ascii ''.wav''"
    by (simp add: q path_name_def stem_def)
qed

lemma py_lower_wav: "py_lower E (ascii ''.wav'') = ascii ''.wav''"
  by (simp add: py_lower_def ascii_def ascii_lower_def)

lemma ensure_wav_suffix:
  assumes "ensure_wav E p = Inr q"
  shows "py_lower E (path_suffix q) = ascii ''.wav''"
proof (cases "py_lower E (path_suffix p) = ascii ''.wav''")
  case True
  then show ?thesis using assms by (simp add: ensure_wav_def)
next
  case False
  then have "with_suffix p (ascii ''.wav'') = Inr q" using assms by (simp add: ensure_wav_def)
  then show ?thesis by (simp add: with_suffix_wav(1) py_lower_wav)
qed

lemma ensure_wav_fixed: "py_lower E (path_suffix q) = ascii ''.wav'' \<Longrightarrow> ensure_wav E q = Inr q"
  by (simp add: ensure_wav_def)

lemma Path_clip_wav:
  "ensure_wav E (Path (ascii ''x/y/clip'')) = Inr (Path (ascii ''x/y/clip.wav''))"
  "path_str (Path (ascii ''x/y/clip.wav'')) = ascii ''x/y/clip.wav''"
  "path_str (parent (Path (ascii ''x/y/clip.wav''))) = ascii ''x/y''"
  by (simp_all add: ensure_wav_def py_lower_def with_suffix_def path_suffix_def path_name_def
        Path_def splitroot_def ascii_def SEP_def DOT_def ascii_lower_def Let_def path_str_def
        parent_def)

text \<open>
  Claim C10.  The normalization step of \<open>save_audio\<close> (lines 161 and 162) is idempotent:
  running it on its own result changes nothing, and when the first run raises so does
  the composition.  The reason is that a path that comes out of the step has a suffix
  whose lower-case form is \<open>.wav\<close>, and the step leaves such a path alone.
\<close>

theorem ensure_wav_idempotent:
  "(case ensure_wav E p of Inl e \<Rightarrow> Inl e | Inr q \<Rightarrow> ensure_wav E q) = ensure_wav E p
   \<and> (\<forall>q. ensure_wav E p = Inr q \<longrightarrow>
          py_lower E (path_suffix q) = ascii ''.wav'' \<and> ensure_wav E q = Inr q)"
proof -
  have fixed: "py_lower E (path_suffix q) = ascii ''.wav'' \<and> ensure_wav E q = Inr q"
    if "ensure_wav E p = Inr q" for q
  proof -
    have "py_lower E (path_suffix q) = ascii ''.wav''"
      using that by (rule ensure_wav_suffix)
    then show ?thesis by (simp add: ensure_wav_fixed)
  qed
  show ?thesis
  proof (cases "ensure_wav E p")
    case (Inl e)
    then show ?thesis by simp
  next
    case (Inr q)
    then show ?thesis using fixed by simp
  qed
qed


theorem ensure_wav_idempotent_witness:
  "ensure_wav sample_env (Path (ascii ''x/y/clip'')) = Inr (Path (ascii ''x/y/clip.wav''))
   \<and> ensure_wav sample_env (Path (ascii ''x/y/clip.wav'')) = Inr (Path (ascii ''x/y/clip.wav''))
   \<and> py_lower sample_env (path_suffix (Path (ascii ''x/y/clip.wav''))) = ascii ''.wav''"
  using ensure_wav_idempotent [of sample_env "Path (ascii ''x/y/clip'')"]
  by (simp add: Path_clip_wav(1))

section \<open>Synthesis and saving\<close>

lemma synthesize_success:
  assumes "synthesize E text sid sp pt nt vl w = (Inr audio, w1)"
  shows "\<exists>r1 q q' r2.
           http_answer E w (audio_query_request E text sid) = Inr r1
           \<and> raise_for_status r1 = Inr () \<and> json_result r1 = Inr q
           \<and> apply_settings q sp pt nt vl = Inr q'
           \<and> http_answer E (record_event (Http (audio_query_request E text sid)) w)
                 (synthesis_request E sid q') = Inr r2
           \<and> raise_for_status r2 = Inr () \<and> audio = content r2
           \<and> w1 = record_event (Http (synthesis_request E sid q'))
                     (record_event (Http (audio_query_request E text sid)) w)"
  using assms
  by (auto simp: synthesize_def io_bind_def io_result_def client_request_def
           split: sum.splits prod.splits)

lemma synthesize_files:
  "files (snd (synthesize E text sid sp pt nt vl w)) = files w
   \<and> dirs (snd (synthesize E text sid sp pt nt vl w)) = dirs w"
  by (auto simp: synthesize_def io_bind_def io_result_def client_request_def record_event_def
           split: sum.splits prod.splits)

lemma synthesize_first_event:
  "\<exists>rest. trace (snd (synthesize E text sid sp pt nt vl w))
            = trace w @ Http (audio_query_request E text sid) # rest"
  by (auto simp: synthesize_def io_bind_def io_result_def client_request_def record_event_def
           split: sum.splits prod.splits)

lemma self_in_ancestors: "p \<in> set (ancestors p)"
proof -
  have "p\<lparr>path_parts := take (length (path_parts p)) (path_parts p)\<rparr> \<in> set (ancestors p)"
    unfolding ancestors_def set_map set_rev by (rule imageI) simp
  then show ?thesis by simp
qed

lemma save_audio_try_success:
  assumes "save_audio_try E text sid sp pt nt vl f w = (Inr msg, w')"
  shows "\<exists>audio w1.
           synthesize E text sid sp pt nt vl w = (Inr audio, w1)
           \<and> msg = saved_message f
           \<and> files w' = (files w)(path_str f \<mapsto> audio)
           \<and> dirs w' = dirs w \<union> set (map path_str (ancestors (parent f)))
           \<and> trace w' = trace w1 @ [Mkdir (path_str (parent f)), WriteBytes (path_str f) audio]"
proof -
  obtain r w1 where s: "synthesize E text sid sp pt nt vl w = (r, w1)" by (cases "synthesize E text sid sp pt nt vl w")
  then obtain audio where r: "r = Inr audio"
    using assms by (cases r) (auto simp: save_audio_try_def io_bind_def)
  have f: "files w1 = files w" "dirs w1 = dirs w" using synthesize_files [of E "text" sid sp pt nt vl w] s by auto
  show ?thesis
    using assms s r f
    by (auto simp: save_audio_try_def io_bind_def io_result_def mkdir_parents_def write_bytes_def
                   record_event_def
             split: sum.splits prod.splits option.splits)
qed


lemma validate_ranges_error: "validate_ranges E sp pt nt vl = Some msg \<Longrightarrow> prefix ERR msg"
  by (auto simp: validate_ranges_def range_error_prefix split: if_splits)

lemma save_audio_except_error: "prefix ERR (save_audio_except E f e)"
  by (cases e)
     (simp_all add: connect_error_message_def status_error_message_def
        permission_error_message_def other_error_message_def)

lemma save_audio_success:
  assumes "save_audio E text output_path speaker speed pitch intonation volume w = (Inr msg, w')"
    and "\<not> prefix ERR msg"
  shows "\<exists>output_file.
           validate_ranges E (or_default speed 1) (or_default pitch 0) (or_default intonation 1)
             (or_default volume 1) = None
           \<and> ensure_wav E (Path output_path) = Inr output_file
           \<and> save_audio_try E text (case speaker of Some s \<Rightarrow> s | None \<Rightarrow> SPEAKER_ID E)
                 (or_default speed 1) (or_default pitch 0) (or_default intonation 1)
                 (or_default volume 1) output_file w = (Inr msg, w')"
proof -
  let ?v = "validate_ranges E (or_default speed 1) (or_default pitch 0) (or_default intonation 1)
             (or_default volume 1)"
  have v: "?v = None"
  proof (cases ?v)
    case (Some m)
    then have "msg = m" using assms(1) by (simp add: save_audio_def Let_def)
    then show ?thesis using Some assms(2) validate_ranges_error by blast
  qed simp
  then obtain f where f: "ensure_wav E (Path output_path) = Inr f"
    using assms(1) by (cases "ensure_wav E (Path output_path)") (auto simp: save_audio_def Let_def)
  let ?t = "save_audio_try E text (case speaker of Some s \<Rightarrow> s | None \<Rightarrow> SPEAKER_ID E)
                 (or_default speed 1) (or_default pitch 0) (or_default intonation 1)
                 (or_default volume 1) f w"
  obtain r w2 where t: "?t = (r, w2)" by (cases ?t)
  have "r = Inr msg \<and> w2 = w'"
  proof (cases r)
    case (Inl e)
    then have "msg = save_audio_except E f e"
      using assms(1) v f t by (simp add: save_audio_def Let_def)
    then show ?thesis using assms(2) save_audio_except_error by blast
  next
    case (Inr m)
    then show ?thesis using assms(1) v f t by (simp add: save_audio_def Let_def)
  qed
  then show ?thesis using v f t by simp
qed

text \<open>
  Claim C5.  A call of \<open>save_audio\<close> that returns a message which is not an error message
  has made exactly four calls to the outside, in this order: the audio query, the
  synthesis request, the creation of the parent directories of the normalized path, and
  the write of the file.  Afterwards the file at the normalized path holds exactly the
  body of the synthesis response, whatever it held before; all other files are as they
  were; the parent directory and its ancestors are directories; and the message
  returned ends with the normalized path.
\<close>

theorem save_audio_writes_payload:
  assumes "save_audio E text output_path speaker speed pitch intonation volume w = (Inr msg, w')"
    and "\<not> prefix ERR msg"
  shows "\<exists>output_file q r.
           ensure_wav E (Path output_path) = Inr output_file
           \<and> msg = saved_message output_file
           \<and> suffix (path_str output_file) msg
           \<and> http_answer E
                 (record_event
                    (Http (audio_query_request E text
                             (case speaker of Some s \<Rightarrow> s | None \<Rightarrow> SPEAKER_ID E))) w)
                 (synthesis_request E (case speaker of Some s \<Rightarrow> s | None \<Rightarrow> SPEAKER_ID E) q)
               = Inr r
           \<and> files w' = (files w)(path_str output_file \<mapsto> content r)
           \<and> dirs w' = dirs w \<union> set (map path_str (ancestors (parent output_file)))
           \<and> path_str (parent output_file) \<in> dirs w'
           \<and> trace w' = trace w @
                [Http (audio_query_request E text
                         (case speaker of Some s \<Rightarrow> s | None \<Rightarrow> SPEAKER_ID E)),
                 Http (synthesis_request E
                         (case speaker of Some s \<Rightarrow> s | None \<Rightarrow> SPEAKER_ID E) q),
                 Mkdir (path_str (parent output_file)),
                 WriteBytes (path_str output_file) (content r)]"
proof -
  let ?sid = "case speaker of Some s \<Rightarrow> s | None \<Rightarrow> SPEAKER_ID E"
  from save_audio_success [OF assms] obtain f where
    f: "ensure_wav E (Path output_path) = Inr f"
    and t: "save_audio_try E text ?sid (or_default speed 1) (or_default pitch 0)
              (or_default intonation 1) (or_default volume 1) f w = (Inr msg, w')"
    by blast
  from save_audio_try_success [OF t] obtain audio w1 where
    s: "synthesize E text ?sid (or_default speed 1) (or_default pitch 0)
          (or_default intonation 1) (or_default volume 1) w = (Inr audio, w1)"
    and m: "msg = saved_message f"
    and fl: "files w' = (files w)(path_str f \<mapsto> audio)"
    and d: "dirs w' = dirs w \<union> set (map path_str (ancestors (parent f)))"
    and tr: "trace w' = trace w1 @ [Mkdir (path_str (parent f)), WriteBytes (path_str f) audio]"
    by blast
  from synthesize_success [OF s] obtain q r where
    h: "http_answer E (record_event (Http (audio_query_request E text ?sid)) w)
          (synthesis_request E ?sid q) = Inr r"
    and a: "audio = content r"
    and w1: "w1 = record_event (Http (synthesis_request E ?sid q))
                    (record_event (Http (audio_query_request E text ?sid)) w)"
    by blast
  have p: "path_str (parent f) \<in> dirs w'"
    using d self_in_ancestors [of "parent f"] by auto
  have sf: "suffix (path_str f) msg" by (simp add: m saved_message_def suffix_def)
  show ?thesis
    apply (rule exI [of _ f], rule exI [of _ q], rule exI [of _ r])
    using f m sf h fl d p tr a w1 by (simp add: record_event_def)
qed



lemma sample_http_content: "http_answer sample_env w rq = Inr r \<Longrightarrow> content r = [82, 73, 70, 70]"
  by (auto simp: sample_env_def sample_http_def)

lemma sample_synthesize:
  "fst (synthesize sample_env text sid sp pt nt vl w) = Inr [82, 73, 70, 70]"
  by (simp add: synthesize_def io_bind_def io_result_def client_request_def sample_env_def
        sample_http_def raise_for_status_def apply_settings_def audio_query_request_def
        synthesis_request_def ascii_def)

lemma sample_save_audio:
  "fst (save_audio sample_env (ascii ''hello'') (ascii ''x/y/clip'') None None None None None
          empty_world) = Inr (saved_message (Path (ascii ''x/y/clip.wav'')))"
proof -
  have v: "validate_ranges sample_env (Finite 1) (Finite 0) (Finite 1) (Finite 1) = None"
    by (simp add: validate_ranges_def)
  obtain w1 where s: "synthesize sample_env (ascii ''hello'') 8 (Finite 1) (Finite 0) (Finite 1)
      (Finite 1) empty_world = (Inr [82, 73, 70, 70], w1)"
    using sample_synthesize [of "ascii ''hello''" 8 "Finite 1" "Finite 0" "Finite 1" "Finite 1" empty_world]
    by (metis prod.collapse)
  have e: "SPEAKER_ID sample_env = 8" "fs_fault sample_env = (\<lambda>w e. None)"
    by (simp_all add: sample_env_def)
  show ?thesis
    by (simp add: save_audio_def Let_def or_default_def v Path_clip_wav(1) save_audio_try_def
          io_bind_def io_result_def s e mkdir_parents_def write_bytes_def)
qed

theorem save_audio_writes_payload_witness:
  "fst (save_audio sample_env (ascii ''hello'') (ascii ''x/y/clip'') None None None None None
          empty_world) = Inr (saved_message (Path (ascii ''x/y/clip.wav'')))
   \<and> \<not> prefix ERR (saved_message (Path (ascii ''x/y/clip.wav'')))
   \<and> files (snd (save_audio sample_env (ascii ''hello'') (ascii ''x/y/clip'') None None None
                    None None empty_world)) (ascii ''x/y/clip.wav'') = Some [82, 73, 70, 70]
   \<and> ascii ''x/y'' \<in> dirs (snd (save_audio sample_env (ascii ''hello'') (ascii ''x/y/clip'')
                                   None None None None None empty_world))"
proof -
  let ?r = "save_audio sample_env (ascii ''hello'') (ascii ''x/y/clip'') None None None None None
          empty_world"
  have n: "\<not> prefix ERR (saved_message (Path (ascii ''x/y/clip.wav'')))"
    by (simp add: ERR_def saved_message_def)
  have "?r = (Inr (saved_message (Path (ascii ''x/y/clip.wav''))), snd ?r)"
    using sample_save_audio by (metis prod.collapse)
  from save_audio_writes_payload [OF this n] obtain f q r where
    f: "ensure_wav sample_env (Path (ascii ''x/y/clip'')) = Inr f"
    and h: "http_answer sample_env
              (record_event (Http (audio_query_request sample_env (ascii ''hello'')
                 (case None of Some s \<Rightarrow> s | None \<Rightarrow> SPEAKER_ID sample_env))) empty_world)
              (synthesis_request sample_env
                 (case None of Some s \<Rightarrow> s | None \<Rightarrow> SPEAKER_ID sample_env) q) = Inr r"
    and fl: "files (snd ?r) = (files empty_world)(path_str f \<mapsto> content r)"
    and d: "path_str (parent f) \<in> dirs (snd ?r)"
    by blast
  have "f = Path (ascii ''x/y/clip.wav'')" using f by (simp add: Path_clip_wav(1))
  then show ?thesis
    using n sample_save_audio fl d sample_http_content [OF h] by (simp add: Path_clip_wav)
qed


lemma Path_clip_WAV:
  "ensure_wav E (Path (ascii ''clip.WAV'')) = Inr (Path (ascii ''clip.WAV''))"
  "path_str (Path (ascii ''clip.WAV'')) = ascii ''clip.WAV''"
  "ascii ''clip.WAV'' \<noteq> ascii ''clip.wav''"
  by (simp_all add: ensure_wav_def py_lower_def with_suffix_def path_suffix_def path_name_def
        Path_def splitroot_def ascii_def SEP_def DOT_def ascii_lower_def Let_def path_str_def)

lemma sample_save_audio_files:
  assumes "ensure_wav sample_env (Path output_path) = Inr f"
  shows "fst (save_audio sample_env text output_path None None None None None w)
           = Inr (saved_message f)
         \<and> files (snd (save_audio sample_env text output_path None None None None None w))
           = (files w)(path_str f \<mapsto> [82, 73, 70, 70])"
proof -
  have v: "validate_ranges sample_env (Finite 1) (Finite 0) (Finite 1) (Finite 1) = None"
    by (simp add: validate_ranges_def)
  obtain w1 where s: "synthesize sample_env text 8 (Finite 1) (Finite 0) (Finite 1)
      (Finite 1) w = (Inr [82, 73, 70, 70], w1)"
    using sample_synthesize [of "text" 8 "Finite 1" "Finite 0" "Finite 1" "Finite 1" w]
    by (metis prod.collapse)
  have w1: "files w1 = files w"
    using synthesize_files [of sample_env "text" 8 "Finite 1" "Finite 0" "Finite 1" "Finite 1" w] s
    by simp
  have e: "SPEAKER_ID sample_env = 8" "fs_fault sample_env = (\<lambda>w e. None)"
    by (simp_all add: sample_env_def)
  show ?thesis
    by (simp add: save_audio_def Let_def or_default_def v assms save_audio_try_def
          io_bind_def io_result_def s e mkdir_parents_def write_bytes_def record_event_def w1)
qed

text \<open>
  Claim C3, as stated, fails at \<open>clip.WAV\<close>: the suffix \<open>.WAV\<close> already matches, so the
  path is used as it is.  With the sample environment the file is written at
  \<open>clip.WAV\<close> and no file \<open>clip.wav\<close> comes to exist.
\<close>

theorem clip_WAV_keeps_its_case:
  "fst (save_audio sample_env (ascii ''hello'') (ascii ''clip.WAV'') None None None None None
          empty_world) = Inr (saved_message (Path (ascii ''clip.WAV'')))
   \<and> path_str (Path (ascii ''clip.WAV'')) = ascii ''clip.WAV''
   \<and> files (snd (save_audio sample_env (ascii ''hello'') (ascii ''clip.WAV'') None None None
                    None None empty_world)) (ascii ''clip.WAV'') = Some [82, 73, 70, 70]
   \<and> files (snd (save_audio sample_env (ascii ''hello'') (ascii ''clip.WAV'') None None None
                    None None empty_world)) (ascii ''clip.wav'') = None"
  using sample_save_audio_files [OF Path_clip_WAV(1), of "ascii ''hello''" empty_world]
    Path_clip_WAV(3)
  by (simp add: Path_clip_WAV(2) empty_world_def)

text \<open>
  Claim C3, amended.  When the lower-case form of the suffix of the final component is
  \<open>.wav\<close>, the path is used unchanged.  Otherwise, for a path that has a final
  component, the suffix of that component is replaced with \<open>.wav\<close> (appended when there
  is none) and nothing else of the path changes.  A successful \<open>save_audio\<close> writes its
  file at the path so normalized.  In particular \<open>x/y/clip\<close> gives \<open>x/y/clip.wav\<close>, and
  \<open>clip.WAV\<close> stays \<open>clip.WAV\<close>.
\<close>

theorem output_path_normalized:
  "(py_lower E (path_suffix p) = ascii ''.wav'' \<longrightarrow> ensure_wav E p = Inr p)
   \<and> (py_lower E (path_suffix p) \<noteq> ascii ''.wav'' \<and> path_name p \<noteq> [] \<longrightarrow>
        (\<exists>q. ensure_wav E p = Inr q
             \<and> path_root q = path_root p
             \<and> butlast (path_parts q) = butlast (path_parts p)
             \<and> path_name q
                 = take (length (path_name p) - length (path_suffix p)) (path_name p)
                     @ ascii ''.wav''
             \<and> path_suffix q = ascii ''.wav''))
   \<and> (save_audio E text output_path speaker speed pitch intonation volume w = (Inr msg, w')
        \<and> \<not> prefix ERR msg \<longrightarrow>
        (\<exists>f audio. ensure_wav E (Path output_path) = Inr f \<and> msg = saved_message f
               \<and> files w' = (files w)(path_str f \<mapsto> audio)))
   \<and> ensure_wav E (Path (ascii ''x/y/clip'')) = Inr (Path (ascii ''x/y/clip.wav''))
   \<and> path_str (Path (ascii ''x/y/clip.wav'')) = ascii ''x/y/clip.wav''
   \<and> ensure_wav E (Path (ascii ''clip.WAV'')) = Inr (Path (ascii ''clip.WAV''))
   \<and> path_str (Path (ascii ''clip.WAV'')) = ascii ''clip.WAV''"
proof -
  have a: "py_lower E (path_suffix p) = ascii ''.wav'' \<longrightarrow> ensure_wav E p = Inr p"
    by (simp add: ensure_wav_def)
  have b: "py_lower E (path_suffix p) \<noteq> ascii ''.wav'' \<and> path_name p \<noteq> [] \<longrightarrow>
        (\<exists>q. ensure_wav E p = Inr q
             \<and> path_root q = path_root p
             \<and> butlast (path_parts q) = butlast (path_parts p)
             \<and> path_name q
                 = take (length (path_name p) - length (path_suffix p)) (path_name p)
                     @ ascii ''.wav''
             \<and> path_suffix q = ascii ''.wav'')"
  proof (intro impI, elim conjE)
    assume l: "py_lower E (path_suffix p) \<noteq> ascii ''.wav''" and n: "path_name p \<noteq> []"
    have "\<exists>q. with_suffix p (ascii ''.wav'') = Inr q"
      using n by (simp add: with_suffix_def ascii_def SEP_def DOT_def Let_def)
    then obtain q where q: "with_suffix p (ascii ''.wav'') = Inr q" ..
    then have "ensure_wav E p = Inr q" using l by (simp add: ensure_wav_def)
    then show "\<exists>q. ensure_wav E p = Inr q
             \<and> path_root q = path_root p
             \<and> butlast (path_parts q) = butlast (path_parts p)
             \<and> path_name q
                 = take (length (path_name p) - length (path_suffix p)) (path_name p)
                     @ ascii ''.wav''
             \<and> path_suffix q = ascii ''.wav''"
      using with_suffix_wav [OF q] by simp
  qed
  have c: "save_audio E text output_path speaker speed pitch intonation volume w = (Inr msg, w')
        \<and> \<not> prefix ERR msg \<longrightarrow>
        (\<exists>f audio. ensure_wav E (Path output_path) = Inr f \<and> msg = saved_message f
               \<and> files w' = (files w)(path_str f \<mapsto> audio))"
  proof (intro impI, elim conjE)
    assume s: "save_audio E text output_path speaker speed pitch intonation volume w = (Inr msg, w')"
      and n: "\<not> prefix ERR msg"
    from save_audio_success [OF s n] obtain f where
      f: "ensure_wav E (Path output_path) = Inr f"
      and t: "save_audio_try E text (case speaker of Some s \<Rightarrow> s | None \<Rightarrow> SPEAKER_ID E)
                 (or_default speed 1) (or_default pitch 0) (or_default intonation 1)
                 (or_default volume 1) f w = (Inr msg, w')"
      by blast
    from save_audio_try_success [OF t] f
    show "\<exists>f audio. ensure_wav E (Path output_path) = Inr f \<and> msg = saved_message f
               \<and> files w' = (files w)(path_str f \<mapsto> audio)"
      by blast
  qed
  show ?thesis using a b c by (simp add: Path_clip_wav Path_clip_WAV)
qed


theorem output_path_normalized_witness:
  "py_lower sample_env (path_suffix (Path (ascii ''clip.WAV''))) = ascii ''.wav''
   \<and> ensure_wav sample_env (Path (ascii ''clip.WAV'')) = Inr (Path (ascii ''clip.WAV''))
   \<and> py_lower sample_env (path_suffix (Path (ascii ''x/y/clip''))) \<noteq> ascii ''.wav''
   \<and> path_name (Path (ascii ''x/y/clip'')) \<noteq> []
   \<and> (\<exists>q. ensure_wav sample_env (Path (ascii ''x/y/clip'')) = Inr q
          \<and> path_name q = ascii ''clip.wav'' \<and> path_suffix q = ascii ''.wav'')
   \<and> fst (save_audio sample_env (ascii ''hello'') (ascii ''x/y/clip'') None None None None None
          empty_world) = Inr (saved_message (Path (ascii ''x/y/clip.wav'')))
   \<and> \<not> prefix ERR (saved_message (Path (ascii ''x/y/clip.wav'')))
   \<and> (\<exists>f audio. ensure_wav sample_env (Path (ascii ''x/y/clip'')) = Inr f
          \<and> files (snd (save_audio sample_env (ascii ''hello'') (ascii ''x/y/clip'') None None
                           None None None empty_world))
              = (files empty_world)(path_str f \<mapsto> audio))"
proof -
  let ?r = "save_audio sample_env (ascii ''hello'') (ascii ''x/y/clip'') None None None None None
          empty_world"
  have a: "py_lower sample_env (path_suffix (Path (ascii ''clip.WAV''))) = ascii ''.wav''"
    by (simp add: py_lower_def path_suffix_def path_name_def Path_def splitroot_def ascii_def
          SEP_def DOT_def ascii_lower_def Let_def)
  have b: "py_lower sample_env (path_suffix (Path (ascii ''x/y/clip''))) \<noteq> ascii ''.wav''"
    "path_name (Path (ascii ''x/y/clip'')) \<noteq> []"
    "take (length (path_name (Path (ascii ''x/y/clip'')))
            - length (path_suffix (Path (ascii ''x/y/clip''))))
       (path_name (Path (ascii ''x/y/clip''))) @ ascii ''.wav'' = ascii ''clip.wav''"
    by (simp_all add: py_lower_def path_suffix_def path_name_def Path_def splitroot_def ascii_def
          SEP_def DOT_def ascii_lower_def Let_def)
  have n: "\<not> prefix ERR (saved_message (Path (ascii ''x/y/clip.wav'')))"
    by (simp add: ERR_def saved_message_def)
  have s: "?r = (Inr (saved_message (Path (ascii ''x/y/clip.wav''))), snd ?r)"
    using sample_save_audio by (metis prod.collapse)
  note t1 = output_path_normalized [of sample_env "Path (ascii ''clip.WAV'')"]
  note t2 = output_path_normalized [of sample_env "Path (ascii ''x/y/clip'')" "ascii ''hello''"
      "ascii ''x/y/clip''" None None None None None empty_world
      "saved_message (Path (ascii ''x/y/clip.wav''))" "snd ?r"]
  have c: "ensure_wav sample_env (Path (ascii ''clip.WAV'')) = Inr (Path (ascii ''clip.WAV''))"
    using t1 a by blast
  have d: "\<exists>q. ensure_wav sample_env (Path (ascii ''x/y/clip'')) = Inr q
          \<and> path_name q = ascii ''clip.wav'' \<and> path_suffix q = ascii ''.wav''"
    using t2 b by auto
  have e: "\<exists>f audio. ensure_wav sample_env (Path (ascii ''x/y/clip'')) = Inr f
          \<and> files (snd ?r) = (files empty_world)(path_str f \<mapsto> audio)"
    using t2 s n by blast
  show ?thesis using a b(1,2) c d e n sample_save_audio by blast
qed

section \<open>The speaker identifier\<close>

lemma synthesize_two_events:
  assumes "http_answer E w (audio_query_request E text sid) = Inr r"
    and "raise_for_status r = Inr ()" and "json_result r = Inr q"
    and "apply_settings q sp pt nt vl = Inr q'"
  shows "trace (snd (synthesize E text sid sp pt nt vl w))
           = trace w @ [Http (audio_query_request E text sid), Http (synthesis_request E sid q')]"
  using assms
  by (auto simp: synthesize_def io_bind_def io_result_def client_request_def record_event_def
           split: sum.splits prod.splits)

lemma play_audio_trace: "\<exists>rest. trace (snd (play_audio E audio w)) = trace w @ rest"
  by (auto simp: play_audio_def io_bind_def try_finally_def write_temp_file_def
        subprocess_run_check_def os_unlink_def record_event_def Let_def
      split: sum.splits prod.splits option.splits if_splits)

lemma speak_text_try_trace:
  "\<exists>rest. trace (snd (speak_text_try E text sid sp pt nt vl w))
            = trace (snd (synthesize E text sid sp pt nt vl w)) @ rest"
proof (cases "synthesize E text sid sp pt nt vl w")
  case (Pair r w1)
  show ?thesis
  proof (cases r)
    case (Inl e)
    then show ?thesis using Pair by (simp add: speak_text_try_def io_bind_def)
  next
    case (Inr audio)
    obtain rest where "trace (snd (play_audio E audio w1)) = trace w1 @ rest"
      using play_audio_trace by blast
    then show ?thesis using Pair Inr
      by (auto simp: speak_text_try_def io_bind_def io_result_def split: sum.splits prod.splits)
  qed
qed

lemma save_audio_try_trace:
  "\<exists>rest. trace (snd (save_audio_try E text sid sp pt nt vl f w))
            = trace (snd (synthesize E text sid sp pt nt vl w)) @ rest"
proof (cases "synthesize E text sid sp pt nt vl w")
  case (Pair r w1)
  show ?thesis
  proof (cases r)
    case (Inl e)
    then show ?thesis using Pair by (simp add: save_audio_try_def io_bind_def)
  next
    case (Inr audio)
    then show ?thesis using Pair
      by (auto simp: save_audio_try_def io_bind_def io_result_def mkdir_parents_def
            write_bytes_def record_event_def
          split: sum.splits prod.splits option.splits)
  qed
qed

lemma speak_text_valid:
  "validate_ranges E (or_default speed 1) (or_default pitch 0) (or_default intonation 1)
     (or_default volume 1) = None \<Longrightarrow>
   snd (speak_text E text speaker speed pitch intonation volume w)
     = snd (speak_text_try E text (case speaker of Some s \<Rightarrow> s | None \<Rightarrow> SPEAKER_ID E)
              (or_default speed 1) (or_default pitch 0) (or_default intonation 1)
              (or_default volume 1) w)"
  by (auto simp: speak_text_def Let_def split: sum.splits prod.splits)

lemma save_audio_valid:
  "validate_ranges E (or_default speed 1) (or_default pitch 0) (or_default intonation 1)
     (or_default volume 1) = None \<Longrightarrow> ensure_wav E (Path output_path) = Inr f \<Longrightarrow>
   snd (save_audio E text output_path speaker speed pitch intonation volume w)
     = snd (save_audio_try E text (case speaker of Some s \<Rightarrow> s | None \<Rightarrow> SPEAKER_ID E)
              (or_default speed 1) (or_default pitch 0) (or_default intonation 1)
              (or_default volume 1) f w)"
  by (auto simp: save_audio_def Let_def split: sum.splits prod.splits)


lemma validate_ranges_ok:
  "documented_domain ''speed'' sp \<and> documented_domain ''pitch'' pt
   \<and> documented_domain ''intonation'' nt \<and> documented_domain ''volume'' vl
   \<Longrightarrow> validate_ranges E sp pt nt vl = None"
  by (simp add: validate_ranges_domain)

text \<open>
  Claim C9.  The speaker identifier is not checked.  With the four scales in their
  domains, for every integer \<open>s\<close> (negative and huge ones too) both tools send the audio
  query with the parameter \<open>speaker\<close> equal to \<open>s\<close> as their first call to the outside
  (for \<open>save_audio\<close>, provided the output path could be normalized); and when the engine
  answers that query with a success status and an object, the second call is the
  synthesis request with the parameter \<open>speaker\<close> equal to \<open>s\<close> again.
\<close>

theorem speaker_id_passed_unchanged:
  assumes "documented_domain ''speed'' (or_default speed 1)
           \<and> documented_domain ''pitch'' (or_default pitch 0)
           \<and> documented_domain ''intonation'' (or_default intonation 1)
           \<and> documented_domain ''volume'' (or_default volume 1)"
  shows "params (audio_query_request E text s)
           = [(ascii ''text'', JStr text), (ascii ''speaker'', JInt s)]
     \<and> (\<exists>rest. trace (snd (speak_text E text (Some s) speed pitch intonation volume w))
                  = trace w @ Http (audio_query_request E text s) # rest)
     \<and> (\<forall>f. ensure_wav E (Path output_path) = Inr f \<longrightarrow>
           (\<exists>rest. trace (snd (save_audio E text output_path (Some s) speed pitch intonation
                                  volume w))
                    = trace w @ Http (audio_query_request E text s) # rest))
     \<and> (\<forall>r q q'.
           http_answer E w (audio_query_request E text s) = Inr r
           \<and> raise_for_status r = Inr () \<and> json_result r = Inr q
           \<and> apply_settings q (or_default speed 1) (or_default pitch 0)
                 (or_default intonation 1) (or_default volume 1) = Inr q' \<longrightarrow>
           params (synthesis_request E s q') = [(ascii ''speaker'', JInt s)]
           \<and> (\<exists>rest. trace (snd (speak_text E text (Some s) speed pitch intonation volume w))
                  = trace w @ Http (audio_query_request E text s)
                      # Http (synthesis_request E s q') # rest)
           \<and> (\<forall>f. ensure_wav E (Path output_path) = Inr f \<longrightarrow>
                 (\<exists>rest. trace (snd (save_audio E text output_path (Some s) speed pitch
                                        intonation volume w))
                    = trace w @ Http (audio_query_request E text s)
                        # Http (synthesis_request E s q') # rest)))"
proof -
  let ?sp = "or_default speed 1" and ?pt = "or_default pitch 0"
  let ?nt = "or_default intonation 1" and ?vl = "or_default volume 1"
  let ?syn = "synthesize E text s ?sp ?pt ?nt ?vl w"
  have v: "validate_ranges E ?sp ?pt ?nt ?vl = None"
    using assms by (rule validate_ranges_ok)
  have sp: "\<exists>rest. trace (snd (speak_text E text (Some s) speed pitch intonation volume w))
                = trace (snd ?syn) @ rest"
    using speak_text_valid [OF v, of "text" "Some s" w]
      speak_text_try_trace [of E "text" s ?sp ?pt ?nt ?vl w] by simp
  have sa: "\<exists>rest. trace (snd (save_audio E text output_path (Some s) speed pitch intonation
                                volume w)) = trace (snd ?syn) @ rest"
    if "ensure_wav E (Path output_path) = Inr f" for f
    using save_audio_valid [OF v that, of "text" "Some s" w]
      save_audio_try_trace [of E "text" s ?sp ?pt ?nt ?vl f w] by simp
  obtain r1 where r1: "trace (snd ?syn) = trace w @ Http (audio_query_request E text s) # r1"
    using synthesize_first_event by blast
  have a: "params (audio_query_request E text s)
           = [(ascii ''text'', JStr text), (ascii ''speaker'', JInt s)]"
    by (simp add: audio_query_request_def)
  have b: "\<exists>rest. trace (snd (speak_text E text (Some s) speed pitch intonation volume w))
                  = trace w @ Http (audio_query_request E text s) # rest"
    using sp r1 by auto
  have c: "\<forall>f. ensure_wav E (Path output_path) = Inr f \<longrightarrow>
           (\<exists>rest. trace (snd (save_audio E text output_path (Some s) speed pitch intonation
                                  volume w))
                    = trace w @ Http (audio_query_request E text s) # rest)"
    using sa r1 by auto
  have d: "params (synthesis_request E s q') = [(ascii ''speaker'', JInt s)]
           \<and> (\<exists>rest. trace (snd (speak_text E text (Some s) speed pitch intonation volume w))
                  = trace w @ Http (audio_query_request E text s)
                      # Http (synthesis_request E s q') # rest)
           \<and> (\<forall>f. ensure_wav E (Path output_path) = Inr f \<longrightarrow>
                 (\<exists>rest. trace (snd (save_audio E text output_path (Some s) speed pitch
                                        intonation volume w))
                    = trace w @ Http (audio_query_request E text s)
                        # Http (synthesis_request E s q') # rest))"
    if h: "http_answer E w (audio_query_request E text s) = Inr r"
       "raise_for_status r = Inr ()" "json_result r = Inr q"
       "apply_settings q ?sp ?pt ?nt ?vl = Inr q'" for r q q'
  proof -
    have two: "trace (snd ?syn)
           = trace w @ [Http (audio_query_request E text s), Http (synthesis_request E s q')]"
      using synthesize_two_events [OF h] .
    show ?thesis using sp sa two by (auto simp: synthesis_request_def)
  qed
  show ?thesis using a b c d by blast
qed


theorem speaker_id_passed_unchanged_witness:
  "documented_domain ''speed'' (or_default None 1)
   \<and> documented_domain ''pitch'' (or_default None 0)
   \<and> documented_domain ''intonation'' (or_default None 1)
   \<and> documented_domain ''volume'' (or_default None 1)
   \<and> params (audio_query_request sample_env (ascii ''hello'') (- 5))
        = [(ascii ''text'', JStr (ascii ''hello'')), (ascii ''speaker'', JInt (- 5))]
   \<and> (\<exists>q' rest.
         params (synthesis_request sample_env (- 5) q') = [(ascii ''speaker'', JInt (- 5))]
         \<and> trace (snd (speak_text sample_env (ascii ''hello'') (Some (- 5)) None None None None
                          empty_world))
            = trace empty_world @ Http (audio_query_request sample_env (ascii ''hello'') (- 5))
                # Http (synthesis_request sample_env (- 5) q') # rest)"
proof -
  let ?aq = "audio_query_request sample_env (ascii ''hello'') (- 5)"
  have dom: "documented_domain ''speed'' (or_default None 1)
   \<and> documented_domain ''pitch'' (or_default None 0)
   \<and> documented_domain ''intonation'' (or_default None 1)
   \<and> documented_domain ''volume'' (or_default None 1)"
    by (simp add: documented_domain_def in_range_def or_default_def)
  obtain r where r: "http_answer sample_env empty_world ?aq = Inr r"
    and st: "status_code r = 200"
    and js: "json_result r
               = Inr (JObj [(ascii ''speedScale'', JFloat (Finite 1)), (ascii ''kana'', JStr [])])"
    by (simp add: sample_env_def sample_http_def audio_query_request_def)
  have ok: "raise_for_status r = Inr ()" by (simp add: raise_for_status_def st)
  obtain q' where q': "apply_settings
        (JObj [(ascii ''speedScale'', JFloat (Finite 1)), (ascii ''kana'', JStr [])])
        (or_default None 1) (or_default None 0) (or_default None 1) (or_default None 1) = Inr q'"
    by (simp add: apply_settings_def)
  note t = speaker_id_passed_unchanged [OF dom, of sample_env "ascii ''hello''" "- 5" empty_world
      "ascii ''x/y/clip''"]
  from t r ok js q' have
    "params (synthesis_request sample_env (- 5) q') = [(ascii ''speaker'', JInt (- 5))]
     \<and> (\<exists>rest. trace (snd (speak_text sample_env (ascii ''hello'') (Some (- 5)) None None None
                                None empty_world))
            = trace empty_world @ Http ?aq # Http (synthesis_request sample_env (- 5) q') # rest)"
    by blast
  moreover from t have "params ?aq
        = [(ascii ''text'', JStr (ascii ''hello'')), (ascii ''speaker'', JInt (- 5))]"
    by blast
  ultimately show ?thesis using dom by blast
qed

section \<open>The listing\<close>

lemma style_lines_catalog:
  "list_all2 is_style ss sts \<Longrightarrow>
   style_lines E nm ss = Inr (map (\<lambda>st. speaker_line E nm (JStr (fst st)) (JInt (snd st))) sts)"
proof (induction ss sts rule: list_all2_induct)
  case Nil
  show ?case by simp
next
  case (Cons j ss st sts)
  then show ?case by (cases j) (auto simp: is_style_def)
qed

lemma speaker_lines_catalog:
  "list_all2 is_speaker sps cat \<Longrightarrow> speaker_lines E sps = Inr (catalog_lines E cat)"
proof (induction sps cat rule: list_all2_induct)
  case Nil
  show ?case by (simp add: catalog_lines_def)
next
  case (Cons j sps sp cat)
  from Cons.hyps(1) obtain kvs where j: "j = JObj kvs"
    and n: "map_of kvs (ascii ''name'') = Some (JStr (fst sp))"
    and c: "(case map_of kvs (ascii ''styles'') of
               Some (JArr ss) \<Rightarrow> list_all2 is_style ss (snd sp) | _ \<Rightarrow> False)"
    by (cases j) (auto simp: is_speaker_def)
  from c obtain v where v: "map_of kvs (ascii ''styles'') = Some v"
    by (cases "map_of kvs (ascii ''styles'')") auto
  from c v obtain ss where s: "map_of kvs (ascii ''styles'') = Some (JArr ss)"
    and l: "list_all2 is_style ss (snd sp)"
    by (cases v) auto
  show ?case
    using Cons.IH by (simp add: j n s style_lines_catalog [OF l] catalog_lines_def)
qed

lemma speaker_line_text:
  "speaker_line E (JStr n) (JStr sn) (JInt i)
     = ascii ''- '' @ n @ [0xFF08] @ sn @ [0xFF09] @ ascii '': speaker_id='' @ str_int i"
  by (simp add: speaker_line_def)

lemma length_catalog_lines:
  "length (catalog_lines E cat) = sum_list (map (\<lambda>sp. length (snd sp)) cat)"
  by (induction cat) (simp_all add: catalog_lines_def)

lemma split_on_no_sep: "sep \<notin> set xs \<Longrightarrow> split_on sep xs = [xs]"
  by (induction xs) auto

lemma split_on_append_sep:
  "sep \<notin> set xs \<Longrightarrow> split_on sep (xs @ sep # ys) = xs # split_on sep ys"
  by (induction xs) auto

lemma split_on_join:
  "list_all (\<lambda>x. sep \<notin> set x) (x # xs) \<Longrightarrow> split_on sep (join [sep] (x # xs)) = x # xs"
  by (induction xs arbitrary: x) (auto simp: split_on_no_sep split_on_append_sep)

lemma str_nat_digits: "set (str_nat n) \<subseteq> {48 ..< 58}"
proof (induction n rule: str_nat.induct)
  case (1 n)
  show ?case
  proof (cases "n < 10")
    case True
    then have "str_nat n = [48 + n]"
      by (subst str_nat.simps) (simp del: str_nat.simps)
    then show ?thesis using True by (simp del: str_nat.simps)
  next
    case False
    then have eq: "str_nat n = str_nat (n div 10) @ [48 + n mod 10]"
      by (subst str_nat.simps) (simp del: str_nat.simps)
    have "n mod 10 < 10" by simp
    then have "48 + n mod 10 \<in> {48 ..< 58}" by (simp del: str_nat.simps)
    then show ?thesis using 1 False by (simp add: eq del: str_nat.simps)
  qed
qed

lemma str_int_no_line_feed: "10 \<notin> set (str_int i)"
proof -
  have "10 \<notin> set (str_nat n)" for n
    using str_nat_digits [of n] by (auto simp del: str_nat.simps)
  then show ?thesis by (simp add: str_int_def del: str_nat.simps)
qed


lemma heading_no_line_feed: "10 \<notin> set speakers_heading"
  by (simp add: speakers_heading_def ascii_def)

lemma catalog_lines_single:
  "single_line_names cat \<Longrightarrow> list_all (\<lambda>l. 10 \<notin> set l) (catalog_lines E cat)"
  by (auto simp: catalog_lines_def single_line_names_def list_all_iff speaker_line_def
        str_int_no_line_feed ascii_def simp del: str_nat.simps)

lemma split_listing:
  assumes "single_line_names cat" and "catalog_lines E cat \<noteq> []"
  shows "split_on 10 (speakers_heading @ [10] @ join [10] (catalog_lines E cat))
           = speakers_heading # catalog_lines E cat"
proof -
  obtain l ls where l: "catalog_lines E cat = l # ls"
    using assms(2) by (cases "catalog_lines E cat") auto
  have "split_on 10 (join [10] (l # ls)) = l # ls"
    using catalog_lines_single [OF assms(1), of E] unfolding l by (rule split_on_join)
  then show ?thesis
    using split_on_append_sep [OF heading_no_line_feed, of "join [10] (l # ls)"] by (simp add: l)
qed

text \<open>
  Claim C7, as stated, fails on the count: the output starts with a heading line, which
  is not a line of a speaker and a style.  For the sample catalog of one speaker with
  two styles the output has three lines, and the first is the heading, which holds
  neither the speaker's name nor an identifier.
\<close>

theorem listing_has_a_heading:
  "fst (list_speakers sample_env empty_world) = Inr (join [10] sample_listing)
   \<and> split_on 10 (join [10] sample_listing) = sample_listing
   \<and> length sample_listing = 3
   \<and> hd sample_listing = speakers_heading
   \<and> \<not> sublist (ascii ''Zundamon'') speakers_heading
   \<and> \<not> sublist (ascii ''speaker_id'') speakers_heading"
proof -
  have a: "fst (list_speakers sample_env empty_world) = Inr (join [10] sample_listing)"
    by (simp add: list_speakers_def list_speakers_try_def io_bind_def io_result_def
          client_request_def sample_env_def sample_http_def speakers_request_def
          render_speakers_def raise_for_status_def sample_catalog_def speaker_line_def
          sample_listing_def str_int_def ascii_def)
  have b: "split_on 10 (join [10] sample_listing) = sample_listing"
    by (simp add: sample_listing_def speakers_heading_def ascii_def)
  have c: "\<not> sublist (ascii ''Zundamon'') speakers_heading"
    "\<not> sublist (ascii ''speaker_id'') speakers_heading"
    by (simp_all add: speakers_heading_def ascii_def sublist_Cons_right)
  show ?thesis using a b c by (simp add: sample_listing_def)
qed


text \<open>
  Claim C7, amended.  When the engine answers \<open>/speakers\<close> with a success status and a
  catalog (a list of speaker objects, each with a name and a list of styles, each style
  with a name and an integer id), \<open>list_speakers\<close> returns the heading, a line feed,
  and one line per pair of a speaker and one of its styles, in the order of the catalog
  and joined by line feeds; each of these holds the speaker's name, the style's name and
  the style's id in decimal.  When no name holds a line feed, the lines of the output are
  the heading followed by exactly these lines: for a catalog of one speaker with two
  styles, the heading and exactly two such lines.
\<close>

theorem list_speakers_heading_and_lines:
  assumes "http_answer E w (speakers_request E) = Inr r"
    and "200 \<le> status_code r \<and> status_code r \<le> 299"
    and "json_result r = Inr (JArr sps)"
    and "list_all2 is_speaker sps cat"
  shows "\<exists>out.
       list_speakers E w = (Inr out, record_event (Http (speakers_request E)) w)
     \<and> out = speakers_heading @ [10] @ join [10] (catalog_lines E cat)
     \<and> catalog_lines E cat
         = concat (map (\<lambda>sp. map (\<lambda>st. ascii ''- '' @ fst sp @ [0xFF08] @ fst st @ [0xFF09]
                                         @ ascii '': speaker_id='' @ str_int (snd st))
                                 (snd sp)) cat)
     \<and> (single_line_names cat \<and> catalog_lines E cat \<noteq> [] \<longrightarrow>
           split_on 10 out = speakers_heading # catalog_lines E cat
           \<and> length (split_on 10 out) = 1 + sum_list (map (\<lambda>sp. length (snd sp)) cat))
     \<and> (\<forall>n s1 s2. cat = [(n, [s1, s2])] \<and> single_line_names cat \<longrightarrow>
           split_on 10 out
             = [speakers_heading,
                ascii ''- '' @ n @ [0xFF08] @ fst s1 @ [0xFF09] @ ascii '': speaker_id=''
                  @ str_int (snd s1),
                ascii ''- '' @ n @ [0xFF08] @ fst s2 @ [0xFF09] @ ascii '': speaker_id=''
                  @ str_int (snd s2)])"
proof -
  let ?out = "speakers_heading @ [10] @ join [10] (catalog_lines E cat)"
  have "render_speakers E r = Inr ?out"
    using assms(2,3) speaker_lines_catalog [OF assms(4)]
    by (simp add: render_speakers_def raise_for_status_def)
  then have a: "list_speakers E w = (Inr ?out, record_event (Http (speakers_request E)) w)"
    using assms(1)
    by (simp add: list_speakers_def list_speakers_try_def io_bind_def io_result_def
          client_request_def)
  have b: "catalog_lines E cat
         = concat (map (\<lambda>sp. map (\<lambda>st. ascii ''- '' @ fst sp @ [0xFF08] @ fst st @ [0xFF09]
                                         @ ascii '': speaker_id='' @ str_int (snd st))
                                 (snd sp)) cat)"
    by (simp add: catalog_lines_def speaker_line_text del: str_nat.simps)
  have c: "split_on 10 ?out = speakers_heading # catalog_lines E cat
           \<and> length (split_on 10 ?out) = 1 + sum_list (map (\<lambda>sp. length (snd sp)) cat)"
    if "single_line_names cat" "catalog_lines E cat \<noteq> []"
    using split_listing [OF that] by (simp add: length_catalog_lines del: str_nat.simps)
  have d: "split_on 10 ?out
             = [speakers_heading,
                ascii ''- '' @ n @ [0xFF08] @ fst s1 @ [0xFF09] @ ascii '': speaker_id=''
                  @ str_int (snd s1),
                ascii ''- '' @ n @ [0xFF08] @ fst s2 @ [0xFF09] @ ascii '': speaker_id=''
                  @ str_int (snd s2)]"
    if cat: "cat = [(n, [s1, s2])]" and sl: "single_line_names cat" for n s1 s2
  proof -
    have l: "catalog_lines E cat
           = [ascii ''- '' @ n @ [0xFF08] @ fst s1 @ [0xFF09] @ ascii '': speaker_id=''
                  @ str_int (snd s1),
              ascii ''- '' @ n @ [0xFF08] @ fst s2 @ [0xFF09] @ ascii '': speaker_id=''
                  @ str_int (snd s2)]"
      unfolding b by (simp add: cat del: str_nat.simps)
    then have "catalog_lines E cat \<noteq> []" by (simp del: str_nat.simps)
    from split_listing [OF sl this] show ?thesis unfolding l .
  qed
  show ?thesis
    apply (rule exI [of _ ?out])
    using a b c d by blast
qed

theorem list_speakers_heading_and_lines_witness:
  "(\<exists>r sps. http_answer sample_env empty_world (speakers_request sample_env) = Inr r
       \<and> 200 \<le> status_code r \<and> status_code r \<le> 299
       \<and> json_result r = Inr (JArr sps)
       \<and> list_all2 is_speaker sps
            [(ascii ''Zundamon'', [(ascii ''Normal'', 3), (ascii ''Sweet'', 1)])])
   \<and> single_line_names [(ascii ''Zundamon'', [(ascii ''Normal'', 3), (ascii ''Sweet'', 1)])]
   \<and> (\<exists>out. list_speakers sample_env empty_world
               = (Inr out, record_event (Http (speakers_request sample_env)) empty_world)
          \<and> split_on 10 out = sample_listing)"
proof -
  let ?cat = "[(ascii ''Zundamon'', [(ascii ''Normal'', 3), (ascii ''Sweet'', 1)])]"
  obtain r sps where r: "http_answer sample_env empty_world (speakers_request sample_env) = Inr r"
    and st: "200 \<le> status_code r \<and> status_code r \<le> 299"
    and js: "json_result r = Inr (JArr sps)"
    and sps: "sample_catalog = JArr sps"
    by (simp add: sample_env_def sample_http_def speakers_request_def sample_catalog_def)
  have cat: "list_all2 is_speaker sps ?cat"
    using sps by (auto simp: sample_catalog_def is_speaker_def is_style_def ascii_def)
  have sl: "single_line_names ?cat"
    by (simp add: single_line_names_def ascii_def)
  from list_speakers_heading_and_lines [OF r st js cat] obtain out where
    o: "list_speakers sample_env empty_world
          = (Inr out, record_event (Http (speakers_request sample_env)) empty_world)"
    and two: "\<forall>n s1 s2. ?cat = [(n, [s1, s2])] \<and> single_line_names ?cat \<longrightarrow>
           split_on 10 out
             = [speakers_heading,
                ascii ''- '' @ n @ [0xFF08] @ fst s1 @ [0xFF09] @ ascii '': speaker_id=''
                  @ str_int (snd s1),
                ascii ''- '' @ n @ [0xFF08] @ fst s2 @ [0xFF09] @ ascii '': speaker_id=''
                  @ str_int (snd s2)]"
    by (elim exE conjE) simp
  from two sl have "split_on 10 out = sample_listing"
    by (simp add: sample_listing_def str_int_def ascii_def)
  then show ?thesis using r st js cat sl o by blast
qed

section \<open>The temporary file of speak_text\<close>

lemma write_temp_file_exists:
  "write_temp_file E sfx audio w1 = (Inr temp_path, w2) \<Longrightarrow> temp_path \<in> dom (files w2)"
  by (auto simp: write_temp_file_def Let_def record_event_def split: option.splits)

lemma subprocess_run_check_world:
  "snd (subprocess_run_check E argv cwd w) = record_event (Run argv cwd) w"
  by (auto simp: subprocess_run_check_def split: sum.splits)

lemma os_unlink_trace:
  "trace (snd (os_unlink E p w)) = trace w @ [Unlink p]"
  by (auto simp: os_unlink_def record_event_def split: option.splits)

lemma os_unlink_removes:
  "fs_fault E w (Unlink p) = None \<Longrightarrow> p \<in> dom (files w) \<Longrightarrow>
   os_unlink E p w = (Inr (), record_event (Unlink p) (w\<lparr>files := (files w)(p := None)\<rparr>))"
  by (auto simp: os_unlink_def)

lemma speak_text_except_error: "prefix ERR (speak_text_except E e)"
  by (cases e)
     (simp_all add: connect_error_message_def status_error_message_def
        ffplay_missing_message_def playback_failed_message_def other_error_message_def)


lemma play_audio_unlinks:
  assumes tmp: "write_temp_file E (ascii ''.wav'') audio w1 = (Inr temp_path, w2)"
  shows "\<exists>r w3.
           play_audio E audio w1 = (r, w3)
           \<and> trace w3 = trace w2 @ [Run (ffplay_argv temp_path) None, Unlink temp_path]
           \<and> (fs_fault E (record_event (Run (ffplay_argv temp_path) None) w2) (Unlink temp_path)
                 = None \<longrightarrow>
                temp_path \<notin> dom (files w3)
                \<and> r = fst (subprocess_run_check E (ffplay_argv temp_path) None w2))"
proof -
  let ?argv = "ffplay_argv temp_path"
  let ?w = "record_event (Run ?argv None) w2"
  obtain r where run: "subprocess_run_check E ?argv None w2 = (r, ?w)"
    using subprocess_run_check_world [of E ?argv None w2] by (metis prod.collapse)
  obtain u w3 where ul: "os_unlink E temp_path ?w = (u, w3)"
    by (cases "os_unlink E temp_path ?w")
  have inb: "temp_path \<in> dom (files ?w)"
    using write_temp_file_exists [OF tmp] by (simp add: record_event_def)
  have tr: "trace w3 = trace w2 @ [Run ?argv None, Unlink temp_path]"
    using os_unlink_trace [of E temp_path ?w] ul by (simp add: record_event_def)
  have pl: "play_audio E audio w1 = ((case u of Inl e \<Rightarrow> Inl e | Inr x \<Rightarrow> r), w3)"
    using tmp run ul by (simp add: play_audio_def io_bind_def try_finally_def split: sum.splits)
  have del: "temp_path \<notin> dom (files w3) \<and> (case u of Inl e \<Rightarrow> Inl e | Inr x \<Rightarrow> r) = r"
    if "fs_fault E ?w (Unlink temp_path) = None"
    using os_unlink_removes [OF that inb] ul by (auto simp: record_event_def)
  show ?thesis using pl tr del run by auto
qed

text \<open>
  Claim C2.  Once \<open>speak_text\<close> has written the synthesized audio to its temporary file,
  it makes exactly two more calls to the outside, whatever the player does: it runs the
  player on the file, and it unlinks the file.  Unless the file system refuses the
  unlink, the file is gone afterwards, and the message returned tells how the player
  ended: normally, with a non-zero exit status, or not at all because the executable is
  missing.
\<close>

theorem temp_file_unlinked:
  assumes "documented_domain ''speed'' (or_default speed 1)
           \<and> documented_domain ''pitch'' (or_default pitch 0)
           \<and> documented_domain ''intonation'' (or_default intonation 1)
           \<and> documented_domain ''volume'' (or_default volume 1)"
    and "synthesize E text (case speaker of Some s \<Rightarrow> s | None \<Rightarrow> SPEAKER_ID E)
           (or_default speed 1) (or_default pitch 0) (or_default intonation 1)
           (or_default volume 1) w = (Inr audio, w1)"
    and "write_temp_file E (ascii ''.wav'') audio w1 = (Inr temp_path, w2)"
  shows "\<exists>msg w3.
           speak_text E text speaker speed pitch intonation volume w = (Inr msg, w3)
           \<and> trace w3 = trace w2 @ [Run (ffplay_argv temp_path) None, Unlink temp_path]
           \<and> (fs_fault E (record_event (Run (ffplay_argv temp_path) None) w2) (Unlink temp_path)
                 = None \<longrightarrow>
                temp_path \<notin> dom (files w3)
                \<and> (run_answer E w2 (ffplay_argv temp_path) None = Inr 0 \<longrightarrow>
                      msg = played_message text)
                \<and> (\<forall>code. run_answer E w2 (ffplay_argv temp_path) None = Inr code \<and> code \<noteq> 0
                      \<longrightarrow> msg = playback_failed_message code)
                \<and> (\<forall>m. run_answer E w2 (ffplay_argv temp_path) None = Inl (FileNotFoundError m)
                      \<longrightarrow> msg = ffplay_missing_message))"
proof -
  let ?sid = "case speaker of Some s \<Rightarrow> s | None \<Rightarrow> SPEAKER_ID E"
  let ?argv = "ffplay_argv temp_path"
  have v: "validate_ranges E (or_default speed 1) (or_default pitch 0) (or_default intonation 1)
             (or_default volume 1) = None"
    using assms(1) by (rule validate_ranges_ok)
  from play_audio_unlinks [OF assms(3)] obtain r w3 where
    pl: "play_audio E audio w1 = (r, w3)"
    and tr: "trace w3 = trace w2 @ [Run ?argv None, Unlink temp_path]"
    and del: "fs_fault E (record_event (Run ?argv None) w2) (Unlink temp_path) = None \<longrightarrow>
                temp_path \<notin> dom (files w3) \<and> r = fst (subprocess_run_check E ?argv None w2)"
    by (elim exE conjE) simp
  define res where "res = (case r of Inl e \<Rightarrow> Inl e | Inr u \<Rightarrow> Inr (played_message text))"
  have tr_y: "speak_text_try E text ?sid (or_default speed 1) (or_default pitch 0)
               (or_default intonation 1) (or_default volume 1) w = (res, w3)"
    using assms(2) pl
    by (simp add: speak_text_try_def io_bind_def io_result_def res_def split: sum.splits)
  define msg where "msg = (case res of Inr s \<Rightarrow> s | Inl e \<Rightarrow> speak_text_except E e)"
  have sp: "speak_text E text speaker speed pitch intonation volume w = (Inr msg, w3)"
    using v tr_y by (simp add: speak_text_def Let_def msg_def split: sum.splits)
  have ok: "msg = played_message text"
    if "r = fst (subprocess_run_check E ?argv None w2)"
       "run_answer E w2 ?argv None = Inr 0"
    using that by (simp add: msg_def res_def subprocess_run_check_def)
  have bad: "msg = playback_failed_message code"
    if "r = fst (subprocess_run_check E ?argv None w2)"
       "run_answer E w2 ?argv None = Inr code" "code \<noteq> 0" for code
    using that by (simp add: msg_def res_def subprocess_run_check_def)
  have missing: "msg = ffplay_missing_message"
    if "r = fst (subprocess_run_check E ?argv None w2)"
       "run_answer E w2 ?argv None = Inl (FileNotFoundError m)" for m
    using that by (simp add: msg_def res_def subprocess_run_check_def)
  show ?thesis
    apply (rule exI [of _ msg], rule exI [of _ w3])
    using sp tr del ok bad missing by blast
qed


lemma sample_engine_synthesize:
  "http_answer E = sample_http \<Longrightarrow>
   fst (synthesize E text sid sp pt nt vl w) = Inr [82, 73, 70, 70]"
  by (simp add: synthesize_def io_bind_def io_result_def client_request_def
        sample_http_def raise_for_status_def apply_settings_def audio_query_request_def
        synthesis_request_def ascii_def)

lemma write_temp_file_no_fault:
  "fs_fault E = (\<lambda>w e. None) \<Longrightarrow>
   fst (write_temp_file E sfx audio w) = Inr (temp_stem E w @ sfx)"
  by (simp add: write_temp_file_def Let_def)

theorem temp_file_unlinked_witness:
  "fst (speak_text sample_env (ascii ''hello'') None None None None None empty_world)
     = Inr (played_message (ascii ''hello''))
   \<and> ascii ''/tmp/tmpq1w2e3.wav''
       \<notin> dom (files (snd (speak_text sample_env (ascii ''hello'') None None None None None
                               empty_world)))
   \<and> fst (speak_text (sample_env\<lparr>run_answer := \<lambda>w argv cwd. Inr 1\<rparr>)
            (ascii ''hello'') None None None None None empty_world)
     = Inr (playback_failed_message 1)
   \<and> ascii ''/tmp/tmpq1w2e3.wav''
       \<notin> dom (files (snd (speak_text (sample_env\<lparr>run_answer := \<lambda>w argv cwd. Inr 1\<rparr>)
                               (ascii ''hello'') None None None None None empty_world)))
   \<and> fst (speak_text
            (sample_env\<lparr>run_answer := \<lambda>w argv cwd. Inl (FileNotFoundError (ascii ''ffplay''))\<rparr>)
            (ascii ''hello'') None None None None None empty_world)
     = Inr ffplay_missing_message
   \<and> ascii ''/tmp/tmpq1w2e3.wav''
       \<notin> dom (files (snd (speak_text
            (sample_env\<lparr>run_answer := \<lambda>w argv cwd. Inl (FileNotFoundError (ascii ''ffplay''))\<rparr>)
            (ascii ''hello'') None None None None None empty_world)))"
proof -
  let ?tmp = "ascii ''/tmp/tmpq1w2e3.wav''"
  have gen: "\<exists>msg w3.
      speak_text E (ascii ''hello'') None None None None None empty_world = (Inr msg, w3)
      \<and> ?tmp \<notin> dom (files w3)
      \<and> (run_answer E = (\<lambda>w argv cwd. Inr 0) \<longrightarrow> msg = played_message (ascii ''hello''))
      \<and> (run_answer E = (\<lambda>w argv cwd. Inr 1) \<longrightarrow> msg = playback_failed_message 1)
      \<and> (run_answer E = (\<lambda>w argv cwd. Inl (FileNotFoundError (ascii ''ffplay'')))
            \<longrightarrow> msg = ffplay_missing_message)"
    if E: "http_answer E = sample_http" "fs_fault E = (\<lambda>w e. None)"
      "temp_stem E = (\<lambda>w. ascii ''/tmp/tmpq1w2e3'')" for E
  proof -
    let ?sid = "case None of Some s \<Rightarrow> s | None \<Rightarrow> SPEAKER_ID E"
    let ?syn = "synthesize E (ascii ''hello'') ?sid (or_default None 1) (or_default None 0)
                  (or_default None 1) (or_default None 1) empty_world"
    let ?wt = "write_temp_file E (ascii ''.wav'') [82, 73, 70, 70] (snd ?syn)"
    have dom: "documented_domain ''speed'' (or_default None 1)
           \<and> documented_domain ''pitch'' (or_default None 0)
           \<and> documented_domain ''intonation'' (or_default None 1)
           \<and> documented_domain ''volume'' (or_default None 1)"
      by (simp add: documented_domain_def in_range_def or_default_def)
    have syn: "?syn = (Inr [82, 73, 70, 70], snd ?syn)"
      using sample_engine_synthesize [OF E(1)] by (metis prod.collapse)
    have "fst ?wt = Inr ?tmp"
      using write_temp_file_no_fault [OF E(2)] by (simp add: E(3) ascii_def)
    then have wt: "?wt = (Inr ?tmp, snd ?wt)" by (metis prod.collapse)
    from temp_file_unlinked [OF dom syn wt] show ?thesis
      by (auto simp: E(2))
  qed
  have "\<exists>msg w3.
      speak_text sample_env (ascii ''hello'') None None None None None empty_world = (Inr msg, w3)
      \<and> ?tmp \<notin> dom (files w3) \<and> msg = played_message (ascii ''hello'')"
    using gen [of sample_env] by (auto simp: sample_env_def)
  moreover have "\<exists>msg w3.
      speak_text (sample_env\<lparr>run_answer := \<lambda>w argv cwd. Inr 1\<rparr>) (ascii ''hello'')
         None None None None None empty_world = (Inr msg, w3)
      \<and> ?tmp \<notin> dom (files w3) \<and> msg = playback_failed_message 1"
    using gen [of "sample_env\<lparr>run_answer := \<lambda>w argv cwd. Inr 1\<rparr>"]
    by (auto simp: sample_env_def)
  moreover have "\<exists>msg w3.
      speak_text (sample_env\<lparr>run_answer := \<lambda>w argv cwd. Inl (FileNotFoundError (ascii ''ffplay''))\<rparr>)
         (ascii ''hello'') None None None None None empty_world = (Inr msg, w3)
      \<and> ?tmp \<notin> dom (files w3) \<and> msg = ffplay_missing_message"
    using gen [of "sample_env\<lparr>run_answer := \<lambda>w argv cwd. Inl (FileNotFoundError (ascii ''ffplay''))\<rparr>"]
    by (auto simp: sample_env_def)
  ultimately show ?thesis by auto
qed

section \<open>Exceptions that leave a tool\<close>

lemma list_speakers_returns: "\<exists>s w'. list_speakers E w = (Inr s, w')"
  by (auto simp: list_speakers_def split: sum.splits prod.splits)

lemma speak_text_returns:
  "\<exists>s w'. speak_text E text speaker speed pitch intonation volume w = (Inr s, w')"
  by (auto simp: speak_text_def Let_def split: sum.splits prod.splits option.splits)

lemma save_audio_raises_iff:
  "(\<exists>e. fst (save_audio E text output_path speaker speed pitch intonation volume w) = Inl e)
   = (validate_ranges E (or_default speed 1) (or_default pitch 0) (or_default intonation 1)
        (or_default volume 1) = None
      \<and> py_lower E (path_suffix (Path output_path)) \<noteq> ascii ''.wav''
      \<and> path_name (Path output_path) = [])"
  by (auto simp: save_audio_def Let_def ensure_wav_def with_suffix_def ascii_def SEP_def DOT_def
           split: sum.splits prod.splits option.splits)

text \<open>
  Claim C4 fails for \<open>save_audio\<close>.  The normalization of the output path (lines 160 to
  162) stands before the \<open>try\<close> of line 164.  For the output path \<open>''\<close> (likewise
  \<open>.\<close> and \<open>/\<close>) the path has no final component, \<open>with_suffix\<close> raises
  \<open>ValueError\<close>, and the exception leaves the handler; nothing is sent to the engine.
  The lemmas before show that \<open>list_speakers\<close> and \<open>speak_text\<close> never raise, and
  that a path without a final component is the only way \<open>save_audio\<close> does.
\<close>

theorem save_audio_empty_path_raises:
  "save_audio sample_env (ascii ''hello'') [] None None None None None empty_world
   = (Inl (value_error (ascii ''PosixPath('' @ quoted (ascii ''.'') @ ascii '') has an empty name'')),
      empty_world)"
  by (simp add: save_audio_def Let_def or_default_def validate_ranges_def ensure_wav_def
        py_lower_def with_suffix_def path_suffix_def path_name_def Path_def splitroot_def
        path_repr_def path_str_def ascii_def SEP_def DOT_def value_error_def quoted_def)

end
